theory Spec2Isabelle
  imports
    Complex_Main
    "HOL-Library.Char_ord"
    "HOL-Library.List_Lexorder"
    "HOL-Library.Product_Lexorder"
    "HOL-Library.Multiset"
begin

section \<open>Conventions of the embedding\<close>

text \<open>
  The program is Python. A \<open>str\<close> is modelled as a \<open>string\<close>: a list of 8-bit characters,
  one per code point in the range U+0000 .. U+00FF (every string literal of the program lies
  in that range; \<open>CHR 0xD3\<close> is the letter O with acute accent). With
  \<open>HOL-Library.Char_ord\<close> and \<open>HOL-Library.List_Lexorder\<close> the order on \<open>string\<close> is the
  lexicographic order on code points, which is Python's \<open>str\<close> order.

  A \<open>float\<close> is modelled by the rational number it denotes; \<open>statistics.mean\<close> sums its
  arguments exactly and divides once, which is \<open>sum_list xs / length xs\<close> on rationals.
  NaN, the infinities and the final rounding of a quotient are outside the model.

  A \<open>dict\<close> keeps its keys in insertion order; it is modelled as an association list in
  that order. Every exception the code raises is a value of type \<open>error\<close>, and a function
  that can raise returns \<open>error + 'a\<close> with \<open>Inl\<close> for the exception.
\<close>

datatype error =
    ValueError string
  | InvalidCalificacionError rat
  | ProfesorNotFoundError string
  | StatisticsError
  | IndexError

section \<open>Value object Calificacion (domain/value\_objects/calificacion.py)\<close>

text \<open>
  The dataclass declares three annotated attributes, so all three are fields of the
  generated constructor; \<open>MIN_VALOR\<close> and \<open>MAX_VALOR\<close> default to 1.0 and 5.0.
\<close>

record Calificacion =
  valor :: rat
  MIN_VALOR :: rat
  MAX_VALOR :: rat

definition Calificacion_post_init :: "Calificacion \<Rightarrow> error + Calificacion" where
  "Calificacion_post_init self =
     (if \<not> (MIN_VALOR self \<le> valor self \<and> valor self \<le> MAX_VALOR self)
      then Inl (InvalidCalificacionError (valor self))
      else Inr self)"

text \<open>\<open>Calificacion(v)\<close>: the constructor call with the default bounds.\<close>

definition Calificacion_new :: "rat \<Rightarrow> error + Calificacion" where
  "Calificacion_new v = Calificacion_post_init \<lparr>valor = v, MIN_VALOR = 1, MAX_VALOR = 5\<rparr>"

definition es_aprobatoria :: "Calificacion \<Rightarrow> bool" where
  "es_aprobatoria self \<longleftrightarrow> valor self \<ge> 3"

definition es_excelente :: "Calificacion \<Rightarrow> bool" where
  "es_excelente self \<longleftrightarrow> valor self \<ge> 9 / 2"

definition nivel_desempeno :: "Calificacion \<Rightarrow> string" where
  "nivel_desempeno self =
     (if valor self \<ge> 9 / 2 then ''Excelente''
      else if valor self \<ge> 4 then ''Sobresaliente''
      else if valor self \<ge> 7 / 2 then ''Bueno''
      else if valor self \<ge> 3 then ''Aceptable''
      else ''Insuficiente'')"

text \<open>\<open>__float__\<close>\<close>

definition float_of :: "Calificacion \<Rightarrow> rat" where
  "float_of self = valor self"

text \<open>
  In the exception hierarchy \<open>InvalidCalificacionError\<close> is a \<open>DomainException\<close>; the
  specification calls this family the validation errors.
\<close>

fun is_validation_error :: "error \<Rightarrow> bool" where
  "is_validation_error (InvalidCalificacionError v) = True"
| "is_validation_error (ValueError m) = True"
| "is_validation_error e = False"

section \<open>Value object Periodo (domain/value\_objects/periodo.py)\<close>

definition newline :: char where
  "newline = CHR 0x0A"

definition is_digit :: "char \<Rightarrow> bool" where
  "is_digit c \<longleftrightarrow> c \<in> set ''0123456789''"

text \<open>
  \<open>PATTERN.match(valor)\<close> for \<open>PATTERN = re.compile(r'^\d{4}-[12]$')\<close>, with the semantics of
  Python's \<open>re\<close> module: \<open>match\<close> anchors at the start; \<open>\d\<close> is a decimal digit (within
  U+0000 .. U+00FF these are \<open>0\<close> .. \<open>9\<close>); without the MULTILINE flag, \<open>$\<close> matches at the
  end of the string and also just before a newline that is the last character.
\<close>

definition PATTERN_match :: "string \<Rightarrow> bool" where
  "PATTERN_match s \<longleftrightarrow>
     length s \<ge> 6 \<and>
     list_all is_digit (take 4 s) \<and>
     s ! 4 = CHR ''-'' \<and>
     (s ! 5 = CHR ''1'' \<or> s ! 5 = CHR ''2'') \<and>
     (drop 6 s = [] \<or> drop 6 s = [newline])"

datatype Periodo = Periodo (periodo_valor: string)

text \<open>The message of the \<open>ValueError\<close> raised by \<open>__post_init__\<close>.\<close>

definition formato_invalido :: "string \<Rightarrow> string" where
  "formato_invalido v =
     ''Formato de per'' @ [CHR 0xED] @ ''odo inv'' @ [CHR 0xE1] @ ''lido: '' @ v @
     ''. Esperado: YYYY-1 o YYYY-2''"

definition Periodo_new :: "string \<Rightarrow> error + Periodo" where
  "Periodo_new v =
     (if \<not> PATTERN_match v then Inl (ValueError (formato_invalido v))
      else Inr (Periodo v))"

text \<open>\<open>str.split('-')\<close>: the pieces between the occurrences of the separator.\<close>

fun split_on :: "char \<Rightarrow> string \<Rightarrow> string list" where
  "split_on sep [] = [[]]"
| "split_on sep (c # cs) =
     (if c = sep then [] # split_on sep cs
      else (case split_on sep cs of
              [] \<Rightarrow> [[c]]
            | w # ws \<Rightarrow> (c # w) # ws))"

text \<open>
  \<open>int(s)\<close> on a \<open>str\<close>: white space around the literal is stripped, a sign may lead, and
  the rest is a non-empty run of decimal digits, where single underscores may separate
  digits. Anything else raises \<open>ValueError\<close>.
\<close>

definition is_space :: "char \<Rightarrow> bool" where
  "is_space c \<longleftrightarrow>
     c \<in> {CHR 0x09, CHR 0x0A, CHR 0x0B, CHR 0x0C, CHR 0x0D,
          CHR 0x1C, CHR 0x1D, CHR 0x1E, CHR 0x1F, CHR 0x20, CHR 0x85, CHR 0xA0}"

definition strip :: "string \<Rightarrow> string" where
  "strip s = rev (dropWhile is_space (rev (dropWhile is_space s)))"

definition digit_value :: "char \<Rightarrow> int" where
  "digit_value c = int (of_char c) - 48"

fun digits_ok :: "string \<Rightarrow> bool" where
  "digits_ok [] = False"
| "digits_ok [c] = is_digit c"
| "digits_ok (c # d # cs) =
     (if is_digit c then
        (if d = CHR ''_'' then cs \<noteq> [] \<and> digits_ok cs else digits_ok (d # cs))
      else False)"

definition decimal_value :: "string \<Rightarrow> int" where
  "decimal_value s = foldl (\<lambda>acc c. 10 * acc + digit_value c) 0 (filter is_digit s)"

definition py_int :: "string \<Rightarrow> error + int" where
  "py_int s =
     (let t = strip s;
          (sgn, u) = (case t of
                        c # cs \<Rightarrow> if c = CHR ''-'' then (-1, cs)
                                  else if c = CHR ''+'' then (1, cs) else (1, t)
                      | [] \<Rightarrow> (1, t))
      in if digits_ok u then Inr (sgn * decimal_value u) else Inl (ValueError s))"

text \<open>\<open>xs[i]\<close> for a non-negative constant index.\<close>

definition at_index :: "'a list \<Rightarrow> nat \<Rightarrow> error + 'a" where
  "at_index xs i = (if i < length xs then Inr (xs ! i) else Inl IndexError)"

definition anio :: "Periodo \<Rightarrow> error + int" where
  "anio self =
     (case at_index (split_on (CHR ''-'') (periodo_valor self)) 0 of
        Inl e \<Rightarrow> Inl e
      | Inr w \<Rightarrow> py_int w)"

definition semestre :: "Periodo \<Rightarrow> error + int" where
  "semestre self =
     (case at_index (split_on (CHR ''-'') (periodo_valor self)) 1 of
        Inl e \<Rightarrow> Inl e
      | Inr w \<Rightarrow> py_int w)"

text \<open>\<open>__lt__\<close>\<close>

definition Periodo_lt :: "Periodo \<Rightarrow> Periodo \<Rightarrow> error + bool" where
  "Periodo_lt self otro =
     (case anio self of Inl e \<Rightarrow> Inl e | Inr a1 \<Rightarrow>
     (case anio otro of Inl e \<Rightarrow> Inl e | Inr a2 \<Rightarrow>
        if a1 \<noteq> a2 then Inr (a1 < a2)
        else (case semestre self of Inl e \<Rightarrow> Inl e | Inr s1 \<Rightarrow>
             (case semestre otro of Inl e \<Rightarrow> Inl e | Inr s2 \<Rightarrow> Inr (s1 < s2)))))"

text \<open>
  \<open>a > b\<close> on two \<open>Periodo\<close> objects: the class defines no \<open>__gt__\<close>, so Python evaluates
  the reflected \<open>b.__lt__(a)\<close>.
\<close>

definition Periodo_gt :: "Periodo \<Rightarrow> Periodo \<Rightarrow> error + bool" where
  "Periodo_gt a b = Periodo_lt b a"

text \<open>
  The shape the class documents (\<open>Formato esperado: YYYY-N\<close>): four digits, a hyphen, and
  1 or 2, with nothing after it.
\<close>

definition shape_YYYY_N :: "string \<Rightarrow> bool" where
  "shape_YYYY_N s \<longleftrightarrow>
     length s = 6 \<and> list_all is_digit (take 4 s) \<and> s ! 4 = CHR ''-'' \<and>
     (s ! 5 = CHR ''1'' \<or> s ! 5 = CHR ''2'')"

section \<open>Entities (domain/entities)\<close>

subsection \<open>Categoria\<close>

datatype Categoria =
    PLANEACION
  | CONDUCCION
  | EVALUACION_APRENDIZAJE
  | COMPONENTE_PERSONAL
  | COMPORTAMIENTO
  | ENSENANZA_APRENDIZAJE
  | EVALUACION
  | POSGRADO
  | ESTRUCTURA_AULA_VIRTUAL
  | COMENTARIOS

text \<open>The members in declaration order (iteration over the enum).\<close>

definition todas_las_categorias :: "Categoria list" where
  "todas_las_categorias =
     [PLANEACION, CONDUCCION, EVALUACION_APRENDIZAJE, COMPONENTE_PERSONAL, COMPORTAMIENTO,
      ENSENANZA_APRENDIZAJE, EVALUACION, POSGRADO, ESTRUCTURA_AULA_VIRTUAL, COMENTARIOS]"

text \<open>\<open>Categoria.value\<close>: the canonical label.\<close>

fun categoria_label :: "Categoria \<Rightarrow> string" where
  "categoria_label PLANEACION =
     ''PLANEACI'' @ [CHR 0xD3] @ ''N DEL PROCESO ENSE'' @ [CHR 0xD1] @
     ''ANZA - APRENDIZAJE - EVALUACI'' @ [CHR 0xD3] @ ''N''"
| "categoria_label CONDUCCION =
     ''CONDUCCI'' @ [CHR 0xD3] @ ''N DEL PROCESO ENSE'' @ [CHR 0xD1] @ ''ANZA-APRENDIZAJE''"
| "categoria_label EVALUACION_APRENDIZAJE =
     ''EVALUACI'' @ [CHR 0xD3] @ ''N DEL APRENDIZAJE''"
| "categoria_label COMPONENTE_PERSONAL = ''COMPONENTE PERSONAL''"
| "categoria_label COMPORTAMIENTO = ''COMPORTAMIENTO''"
| "categoria_label ENSENANZA_APRENDIZAJE = ''ENSE'' @ [CHR 0xD1] @ ''ANZA-APRENDIZAJE''"
| "categoria_label EVALUACION = ''EVALUACI'' @ [CHR 0xD3] @ ''N''"
| "categoria_label POSGRADO = ''POSGRADO''"
| "categoria_label ESTRUCTURA_AULA_VIRTUAL = ''ESTRUCTURA DE AULA VIRTUAL''"
| "categoria_label COMENTARIOS = ''COMENTARIOS''"

fun descripcion_corta :: "Categoria \<Rightarrow> string" where
  "descripcion_corta PLANEACION = ''Planeaci'' @ [CHR 0xF3] @ ''n''"
| "descripcion_corta CONDUCCION = ''Conducci'' @ [CHR 0xF3] @ ''n''"
| "descripcion_corta EVALUACION_APRENDIZAJE = ''Eval. Aprendizaje''"
| "descripcion_corta COMPONENTE_PERSONAL = ''Personal''"
| "descripcion_corta COMPORTAMIENTO = ''Comportamiento''"
| "descripcion_corta ENSENANZA_APRENDIZAJE = ''Ense'' @ [CHR 0xF1] @ ''anza-Aprendizaje''"
| "descripcion_corta EVALUACION = ''Evaluaci'' @ [CHR 0xF3] @ ''n''"
| "descripcion_corta POSGRADO = ''Posgrado''"
| "descripcion_corta ESTRUCTURA_AULA_VIRTUAL = ''Aula Virtual''"
| "descripcion_corta COMENTARIOS = ''Comentarios''"

definition categorias_principales :: "Categoria list" where
  "categorias_principales = filter (\<lambda>c. c \<noteq> COMENTARIOS) todas_las_categorias"

subsection \<open>Pregunta\<close>

record Pregunta =
  codigo :: string
  categoria :: Categoria
  texto :: string

text \<open>\<open>__eq__\<close> and \<open>__hash__\<close> look at the code only.\<close>

definition Pregunta_eq :: "Pregunta \<Rightarrow> Pregunta \<Rightarrow> bool" where
  "Pregunta_eq self other \<longleftrightarrow> codigo self = codigo other"

definition pertenece_a_categoria :: "Pregunta \<Rightarrow> Categoria \<Rightarrow> bool" where
  "pertenece_a_categoria self c \<longleftrightarrow> categoria self = c"

definition es_comentario :: "Pregunta \<Rightarrow> bool" where
  "es_comentario self \<longleftrightarrow> categoria self = COMENTARIOS"

subsection \<open>Evaluacion\<close>

text \<open>
  \<open>respuestas\<close> is a \<open>dict[Pregunta, Optional[Calificacion]]\<close>: an association list in
  insertion order whose keys are compared with \<open>Pregunta_eq\<close>. The field \<open>id\<close> is named
  \<open>eval_id\<close> here.
\<close>

record Evaluacion =
  eval_id :: string
  profesor_documento :: string
  profesor_nombre :: string
  periodo :: Periodo
  tipo_formulario :: string
  respuestas :: "(Pregunta \<times> Calificacion option) list"


text \<open>
  \<open>d[k] = v\<close> on a dict: an existing equal key keeps its place and its key object and gets
  the new value; a new key goes to the end.
\<close>

fun dict_set :: "('k \<Rightarrow> 'i) \<Rightarrow> 'k \<Rightarrow> 'v \<Rightarrow> ('k \<times> 'v) list \<Rightarrow> ('k \<times> 'v) list" where
  "dict_set h k v [] = [(k, v)]"
| "dict_set h k v ((k', v') # d) =
     (if h k' = h k then (k', v) # d else (k', v') # dict_set h k v d)"

fun dict_get :: "('k \<Rightarrow> 'i) \<Rightarrow> ('k \<times> 'v) list \<Rightarrow> 'k \<Rightarrow> 'v option" where
  "dict_get h [] k = None"
| "dict_get h ((k', v') # d) k = (if h k' = h k then Some v' else dict_get h d k)"

definition agregar_respuesta ::
  "Evaluacion \<Rightarrow> Pregunta \<Rightarrow> Calificacion option \<Rightarrow> Evaluacion" where
  "agregar_respuesta self pregunta calificacion =
     self\<lparr>respuestas := dict_set codigo pregunta calificacion (respuestas self)\<rparr>"

text \<open>\<open>statistics.mean\<close>: raises \<open>StatisticsError\<close> on an empty sequence.\<close>

definition mean :: "rat list \<Rightarrow> error + rat" where
  "mean xs = (if xs = [] then Inl StatisticsError
              else Inr (sum_list xs / of_nat (length xs)))"

definition calcular_promedio_general :: "Evaluacion \<Rightarrow> error + rat" where
  "calcular_promedio_general self =
     (let calificaciones =
            map (\<lambda>(pregunta, cal). float_of (the cal))
              (filter (\<lambda>(pregunta, cal). cal \<noteq> None \<and> \<not> es_comentario pregunta)
                 (respuestas self))
      in if calificaciones = [] then Inr 0 else mean calificaciones)"

definition calcular_promedio_por_categoria :: "Evaluacion \<Rightarrow> Categoria \<Rightarrow> error + rat" where
  "calcular_promedio_por_categoria self c =
     (let calificaciones =
            map (\<lambda>(pregunta, cal). float_of (the cal))
              (filter (\<lambda>(pregunta, cal). cal \<noteq> None \<and> pertenece_a_categoria pregunta c)
                 (respuestas self))
      in if calificaciones = [] then Inr 0 else mean calificaciones)"

definition obtener_respuestas_por_categoria ::
  "Evaluacion \<Rightarrow> Categoria \<Rightarrow> (Pregunta \<times> Calificacion) list" where
  "obtener_respuestas_por_categoria self c =
     map (\<lambda>(pregunta, cal). (pregunta, the cal))
       (filter (\<lambda>(pregunta, cal). cal \<noteq> None \<and> pertenece_a_categoria pregunta c)
          (respuestas self))"

definition categorias_evaluadas :: "Evaluacion \<Rightarrow> Categoria set" where
  "categorias_evaluadas self =
     set (map categoria (filter (\<lambda>pregunta. \<not> es_comentario pregunta)
                           (map fst (respuestas self))))"

definition total_respuestas_validas :: "Evaluacion \<Rightarrow> nat" where
  "total_respuestas_validas self =
     length (filter (\<lambda>(pregunta, cal). cal \<noteq> None \<and> \<not> es_comentario pregunta)
               (respuestas self))"

subsection \<open>Profesor\<close>

record Profesor =
  documento :: string
  nombre_completo :: string
  evaluaciones :: "Evaluacion list"


section \<open>Repository (infrastructure/repositories/pandas\_repository.py)\<close>

text \<open>
  \<open>defaultdict(list)\<close>: \<open>index[k].append(v)\<close> creates the key at the end of the dict when it
  is missing. \<open>defaultdict(int)\<close>: \<open>count[k] += 1\<close> starts from 0, and reading \<open>count[k]\<close>
  gives 0 for a missing key.
\<close>

fun dd_append :: "('k \<Rightarrow> 'i) \<Rightarrow> 'k \<Rightarrow> 'v \<Rightarrow> ('k \<times> 'v list) list \<Rightarrow> ('k \<times> 'v list) list" where
  "dd_append h k v [] = [(k, [v])]"
| "dd_append h k v ((k', vs) # d) =
     (if h k' = h k then (k', vs @ [v]) # d else (k', vs) # dd_append h k v d)"

fun dd_incr :: "'k \<Rightarrow> ('k \<times> nat) list \<Rightarrow> ('k \<times> nat) list" where
  "dd_incr k [] = [(k, 1)]"
| "dd_incr k ((k', n) # d) =
     (if k' = k then (k', n + 1) # d else (k', n) # dd_incr k d)"

definition dd_count :: "('k \<times> nat) list \<Rightarrow> 'k \<Rightarrow> nat" where
  "dd_count d k = (case dict_get (\<lambda>x. x) d k of None \<Rightarrow> 0 | Some n \<Rightarrow> n)"

record EvaluacionRepository =
  repo_evaluaciones :: "Evaluacion list"
  by_id :: "(string \<times> Evaluacion) list"
  by_profesor :: "(string \<times> Evaluacion list) list"
  by_periodo :: "(Periodo \<times> Evaluacion list) list"
  by_tipo_formulario :: "(string \<times> Evaluacion list) list"

definition build_profesor_index :: "Evaluacion list \<Rightarrow> (string \<times> Evaluacion list) list" where
  "build_profesor_index evs =
     foldl (\<lambda>index evaluacion.
              dd_append (\<lambda>x. x) (profesor_documento evaluacion) evaluacion index) [] evs"

definition build_periodo_index :: "Evaluacion list \<Rightarrow> (Periodo \<times> Evaluacion list) list" where
  "build_periodo_index evs =
     foldl (\<lambda>index evaluacion.
              dd_append (\<lambda>x. x) (periodo evaluacion) evaluacion index) [] evs"

definition build_tipo_formulario_index ::
  "Evaluacion list \<Rightarrow> (string \<times> Evaluacion list) list" where
  "build_tipo_formulario_index evs =
     foldl (\<lambda>index evaluacion.
              dd_append (\<lambda>x. x) (tipo_formulario evaluacion) evaluacion index) [] evs"

text \<open>\<open>PandasEvaluacionRepository.__init__\<close>\<close>

definition EvaluacionRepository_init :: "Evaluacion list \<Rightarrow> EvaluacionRepository" where
  "EvaluacionRepository_init evs =
     \<lparr>repo_evaluaciones = evs,
      by_id = foldl (\<lambda>d e. dict_set (\<lambda>x. x) (eval_id e) e d) [] evs,
      by_profesor = build_profesor_index evs,
      by_periodo = build_periodo_index evs,
      by_tipo_formulario = build_tipo_formulario_index evs\<rparr>"


definition find_by_id :: "EvaluacionRepository \<Rightarrow> string \<Rightarrow> Evaluacion option" where
  "find_by_id self evaluacion_id = dict_get (\<lambda>x. x) (by_id self) evaluacion_id"

definition find_by_profesor :: "EvaluacionRepository \<Rightarrow> string \<Rightarrow> Evaluacion list" where
  "find_by_profesor self doc =
     (case dict_get (\<lambda>x. x) (by_profesor self) doc of None \<Rightarrow> [] | Some es \<Rightarrow> es)"


definition find_by_profesor_and_periodo ::
  "EvaluacionRepository \<Rightarrow> string \<Rightarrow> Periodo \<Rightarrow> Evaluacion list" where
  "find_by_profesor_and_periodo self doc p =
     (let evaluaciones_profesor =
            (case dict_get (\<lambda>x. x) (by_profesor self) doc of None \<Rightarrow> [] | Some es \<Rightarrow> es)
      in filter (\<lambda>e. periodo e = p) evaluaciones_profesor)"




text \<open>
  \<open>get_periodos_disponibles\<close> is \<open>sorted(list(self._by_periodo.keys()))\<close>. \<open>sorted\<close> is a
  stable sort that compares with \<open>Periodo.__lt__\<close>; on validated periods \<open>__lt__\<close> is the
  lexicographic comparison of \<open>periodo_key\<close> (lemma \<open>Periodo_lt_key\<close> below), so the result
  is the stable sort by that key.
\<close>

definition periodo_key :: "Periodo \<Rightarrow> int \<times> int" where
  "periodo_key p =
     ((case anio p of Inr a \<Rightarrow> a | Inl e \<Rightarrow> 0),
      (case semestre p of Inr s \<Rightarrow> s | Inl e \<Rightarrow> 0))"


definition get_tipos_formulario :: "EvaluacionRepository \<Rightarrow> string list" where
  "get_tipos_formulario self = map fst (by_tipo_formulario self)"

section \<open>Use case: CalcularPromedioProfesorUseCase\<close>

text \<open>
  The fields of the DTOs carry a prefix, since several DTOs share field names:
  \<open>req_\<close> for \<open>PromedioProfesorRequest\<close>, \<open>pc_\<close> for \<open>PromedioCategoriaDTO\<close>, \<open>pa_\<close> for
  \<open>PromedioActorDTO\<close> and \<open>pr_\<close> for \<open>PromedioProfesorResponse\<close>.
\<close>

record PromedioProfesorRequest =
  req_documento :: string
  req_periodo :: "string option"

record PromedioCategoriaDTO =
  pc_categoria :: string
  pc_categoria_corta :: string
  pc_promedio :: rat
  pc_total_evaluaciones :: nat

record PromedioActorDTO =
  pa_actor :: string
  pa_promedio :: rat
  pa_total_evaluaciones :: nat

record PromedioProfesorResponse =
  pr_documento :: string
  pr_nombre_completo :: string
  pr_periodo :: "string option"
  pr_promedio_general :: rat
  pr_total_evaluaciones :: nat
  pr_promedios_por_categoria :: "PromedioCategoriaDTO list"
  pr_promedios_por_actor :: "PromedioActorDTO list"

text \<open>A list comprehension whose element expression can raise.\<close>

fun map_err :: "('a \<Rightarrow> error + 'b) \<Rightarrow> 'a list \<Rightarrow> error + 'b list" where
  "map_err f [] = Inr []"
| "map_err f (x # xs) =
     (case f x of
        Inl e \<Rightarrow> Inl e
      | Inr y \<Rightarrow> (case map_err f xs of Inl e \<Rightarrow> Inl e | Inr ys \<Rightarrow> Inr (y # ys)))"

text \<open>\<open>_calcular_promedio_general\<close>\<close>

definition uc_calcular_promedio_general :: "Evaluacion list \<Rightarrow> error + rat" where
  "uc_calcular_promedio_general evs =
     (case map_err calcular_promedio_general evs of
        Inl e \<Rightarrow> Inl e
      | Inr promedios \<Rightarrow> if promedios \<noteq> [] then mean promedios else Inr 0)"

text \<open>
  \<open>_calcular_por_categoria\<close>. The inner loop runs over \<open>evaluacion.categorias_evaluadas()\<close>,
  a Python \<open>set\<close>, whose iteration order the language leaves open: the order is the
  parameter \<open>iter\<close>, which lists the members of a set.
\<close>

type_synonym cat_acc = "(Categoria \<times> rat list) list \<times> (Categoria \<times> nat) list"

fun por_categoria_inner :: "Evaluacion \<Rightarrow> Categoria list \<Rightarrow> cat_acc \<Rightarrow> error + cat_acc" where
  "por_categoria_inner evaluacion [] acc = Inr acc"
| "por_categoria_inner evaluacion (c # cs) (categoria_promedios, categoria_count) =
     (if c \<noteq> COMENTARIOS then
        (case calcular_promedio_por_categoria evaluacion c of
           Inl e \<Rightarrow> Inl e
         | Inr promedio \<Rightarrow>
             if promedio > 0
             then por_categoria_inner evaluacion cs
                    (dd_append (\<lambda>x. x) c promedio categoria_promedios,
                     dd_incr c categoria_count)
             else por_categoria_inner evaluacion cs (categoria_promedios, categoria_count))
      else por_categoria_inner evaluacion cs (categoria_promedios, categoria_count))"

fun por_categoria_outer ::
  "(Categoria set \<Rightarrow> Categoria list) \<Rightarrow> Evaluacion list \<Rightarrow> cat_acc \<Rightarrow> error + cat_acc" where
  "por_categoria_outer iter [] acc = Inr acc"
| "por_categoria_outer iter (evaluacion # evs) acc =
     (case por_categoria_inner evaluacion (iter (categorias_evaluadas evaluacion)) acc of
        Inl e \<Rightarrow> Inl e
      | Inr acc' \<Rightarrow> por_categoria_outer iter evs acc')"

fun por_categoria_resultados ::
  "(Categoria \<times> rat list) list \<Rightarrow> (Categoria \<times> nat) list \<Rightarrow> error + PromedioCategoriaDTO list" where
  "por_categoria_resultados [] categoria_count = Inr []"
| "por_categoria_resultados ((c, promedios) # rest) categoria_count =
     (if promedios \<noteq> [] then
        (case mean promedios of
           Inl e \<Rightarrow> Inl e
         | Inr m \<Rightarrow>
             (case por_categoria_resultados rest categoria_count of
                Inl e \<Rightarrow> Inl e
              | Inr rs \<Rightarrow>
                  Inr (\<lparr>pc_categoria = categoria_label c,
                        pc_categoria_corta = descripcion_corta c,
                        pc_promedio = m,
                        pc_total_evaluaciones = dd_count categoria_count c\<rparr> # rs)))
      else por_categoria_resultados rest categoria_count)"

definition uc_calcular_por_categoria ::
  "(Categoria set \<Rightarrow> Categoria list) \<Rightarrow> Evaluacion list \<Rightarrow> error + PromedioCategoriaDTO list" where
  "uc_calcular_por_categoria iter evs =
     (case por_categoria_outer iter evs ([], []) of
        Inl e \<Rightarrow> Inl e
      | Inr (categoria_promedios, categoria_count) \<Rightarrow>
          (case por_categoria_resultados categoria_promedios categoria_count of
             Inl e \<Rightarrow> Inl e
           | Inr resultados \<Rightarrow> Inr (sort_key pc_categoria resultados)))"

text \<open>\<open>_calcular_por_actor\<close>\<close>

type_synonym actor_acc = "(string \<times> rat list) list \<times> (string \<times> nat) list"

fun por_actor_loop :: "Evaluacion list \<Rightarrow> actor_acc \<Rightarrow> error + actor_acc" where
  "por_actor_loop [] acc = Inr acc"
| "por_actor_loop (evaluacion # evs) (actor_promedios, actor_count) =
     (case calcular_promedio_general evaluacion of
        Inl e \<Rightarrow> Inl e
      | Inr promedio \<Rightarrow>
          if promedio > 0
          then por_actor_loop evs
                 (dd_append (\<lambda>x. x) (tipo_formulario evaluacion) promedio actor_promedios,
                  dd_incr (tipo_formulario evaluacion) actor_count)
          else por_actor_loop evs (actor_promedios, actor_count))"

fun por_actor_resultados ::
  "(string \<times> rat list) list \<Rightarrow> (string \<times> nat) list \<Rightarrow> error + PromedioActorDTO list" where
  "por_actor_resultados [] actor_count = Inr []"
| "por_actor_resultados ((actor, promedios) # rest) actor_count =
     (if promedios \<noteq> [] then
        (case mean promedios of
           Inl e \<Rightarrow> Inl e
         | Inr m \<Rightarrow>
             (case por_actor_resultados rest actor_count of
                Inl e \<Rightarrow> Inl e
              | Inr rs \<Rightarrow>
                  Inr (\<lparr>pa_actor = actor, pa_promedio = m,
                        pa_total_evaluaciones = dd_count actor_count actor\<rparr> # rs)))
      else por_actor_resultados rest actor_count)"

definition uc_calcular_por_actor :: "Evaluacion list \<Rightarrow> error + PromedioActorDTO list" where
  "uc_calcular_por_actor evs =
     (case por_actor_loop evs ([], []) of
        Inl e \<Rightarrow> Inl e
      | Inr (actor_promedios, actor_count) \<Rightarrow>
          (case por_actor_resultados actor_promedios actor_count of
             Inl e \<Rightarrow> Inl e
           | Inr resultados \<Rightarrow> Inr (sort_key pa_actor resultados)))"

text \<open>
  \<open>execute\<close>. \<open>if request.periodo:\<close> is true for a period that is given and is not the
  empty string. The second \<open>ProfesorNotFoundError\<close> is built from the f-string
  \<open>"{documento} en periodo {periodo}"\<close> (with an accented i in the source).
\<close>

definition truthy :: "string option \<Rightarrow> bool" where
  "truthy s \<longleftrightarrow> (case s of None \<Rightarrow> False | Some v \<Rightarrow> v \<noteq> [])"

definition en_periodo :: "string \<Rightarrow> string \<Rightarrow> string" where
  "en_periodo doc p = doc @ '' en per'' @ [CHR 0xED] @ ''odo '' @ p"

definition promedio_filtrar ::
  "PromedioProfesorRequest \<Rightarrow> Evaluacion list \<Rightarrow> error + Evaluacion list" where
  "promedio_filtrar request evs =
     (if truthy (req_periodo request) then
        (case Periodo_new (the (req_periodo request)) of
           Inl e \<Rightarrow> Inl e
         | Inr periodo_obj \<Rightarrow>
             (let evs' = filter (\<lambda>e. periodo e = periodo_obj) evs
              in if evs' = []
                 then Inl (ProfesorNotFoundError
                             (en_periodo (req_documento request) (the (req_periodo request))))
                 else Inr evs'))
      else Inr evs)"

definition CalcularPromedioProfesor_execute ::
  "(Categoria set \<Rightarrow> Categoria list) \<Rightarrow> EvaluacionRepository \<Rightarrow> PromedioProfesorRequest
     \<Rightarrow> error + PromedioProfesorResponse" where
  "CalcularPromedioProfesor_execute iter repository request =
     (let evs0 = find_by_profesor repository (req_documento request)
      in if evs0 = [] then Inl (ProfesorNotFoundError (req_documento request))
         else
           (case promedio_filtrar request evs0 of Inl e \<Rightarrow> Inl e | Inr evs \<Rightarrow>
           (case uc_calcular_promedio_general evs of Inl e \<Rightarrow> Inl e | Inr promedio_general \<Rightarrow>
           (case uc_calcular_por_categoria iter evs of Inl e \<Rightarrow> Inl e | Inr promedios_categoria \<Rightarrow>
           (case uc_calcular_por_actor evs of Inl e \<Rightarrow> Inl e | Inr promedios_actor \<Rightarrow>
           (case at_index evs 0 of Inl e \<Rightarrow> Inl e | Inr primera \<Rightarrow>
              Inr \<lparr>pr_documento = req_documento request,
                   pr_nombre_completo = profesor_nombre primera,
                   pr_periodo = req_periodo request,
                   pr_promedio_general = promedio_general,
                   pr_total_evaluaciones = length evs,
                   pr_promedios_por_categoria = promedios_categoria,
                   pr_promedios_por_actor = promedios_actor\<rparr>))))))"

section \<open>Use case: ObtenerPropuestaMejoraUseCase\<close>

text \<open>
  The static rule table: for a category label, the default text and the (keyword, text)
  pairs in the order of the source.
\<close>

definition RECOMENDACIONES :: "(string \<times> (string \<times> (string \<times> string) list)) list" where
  "RECOMENDACIONES =
     [(''PLANEACI'' @ [CHR 0xD3] @ ''N DEL PROCESO ENSE'' @ [CHR 0xD1] @
       ''ANZA - APRENDIZAJE - EVALUACI'' @ [CHR 0xD3] @ ''N'',
       (''Revise y actualice la planificaci'' @ [CHR 0xF3] @
        ''n de sus clases, asegur'' @ [CHR 0xE1] @
        ''ndose de incluir objetivos claros, metodolog'' @ [CHR 0xED] @
        ''as apropiadas y criterios de evaluaci'' @ [CHR 0xF3] @
        ''n alineados con las competencias del m'' @ [CHR 0xF3] @ ''dulo.'',
         [
          (''conocimientos actualizados'',
           ''Actualice sus conocimientos mediante capacitaciones, lectura '' @
           ''de literatura reciente y participaci'' @ [CHR 0xF3] @
           ''n en comunidades acad'' @ [CHR 0xE9] @
           ''micas de su disciplina.''),
          (''programa'',
           ''Socialice el programa del m'' @ [CHR 0xF3] @
           ''dulo desde el inicio del periodo, explicando objetivos, contenidos, '' @
           ''metodolog'' @ [CHR 0xED] @ ''a y criterios de evaluaci'' @
           [CHR 0xF3] @ ''n.''),
          (''plan'',
           ''Desarrolle un plan de trabajo detallado que sea coherente con '' @
           ''el programa y las necesidades de aprendizaje de los estudiantes.'')])),
      (''CONDUCCI'' @ [CHR 0xD3] @ ''N DEL PROCESO ENSE'' @ [CHR 0xD1] @
       ''ANZA-APRENDIZAJE'',
       (''Implemente metodolog'' @ [CHR 0xED] @
        ''as activas que promuevan la participaci'' @ [CHR 0xF3] @
        ''n estudiantil, el pensamiento cr'' @ [CHR 0xED] @
        ''tico y la aplicaci'' @ [CHR 0xF3] @ ''n pr'' @ [CHR 0xE1] @
        ''ctica del conocimiento.'',
         [
          (''proyectos de aula'',
           ''Dise'' @ [CHR 0xF1] @
           ''e proyectos de aula que conecten la teor'' @ [CHR 0xED] @
           ''a con situaciones reales y promuevan la investigaci'' @
           [CHR 0xF3] @ ''n y creatividad estudiantil.''),
          (''recursos'',
           ''Incorpore diversos recursos did'' @ [CHR 0xE1] @
           ''cticos (TIC, materiales audiovisuales, laboratorios) para enriquecer '' @
           ''el proceso de aprendizaje.''),
          (''metodolog'' @ [CHR 0xED] @ ''a'',
           ''Diversifique las estrategias metodol'' @ [CHR 0xF3] @
           ''gicas para atender diferentes estilos de aprendizaje y mantener '' @
           ''la motivaci'' @ [CHR 0xF3] @ ''n estudiantil.''),
          (''tecnolog'' @ [CHR 0xED] @ ''a'',
           ''Integre herramientas tecnol'' @ [CHR 0xF3] @
           ''gicas (aula virtual, aplicaciones, simuladores) de manera efectiva '' @
           ''en sus clases.'')])),
      (''EVALUACI'' @ [CHR 0xD3] @ ''N DEL APRENDIZAJE'',
       (''Dise'' @ [CHR 0xF1] @
        ''e evaluaciones variadas que midan de forma integral las competencias '' @
        ''desarrolladas, proporcionando retroalimentaci'' @ [CHR 0xF3] @
        ''n oportuna y constructiva.'',
         [
          (''m'' @ [CHR 0xE9] @ ''todos'',
           ''Aplique diferentes m'' @ [CHR 0xE9] @ ''todos de evaluaci'' @
           [CHR 0xF3] @ ''n (pruebas escritas, orales, pr'' @ [CHR 0xE1] @
           ''cticas, proyectos) seg'' @ [CHR 0xFA] @
           ''n las competencias a valorar.''),
          (''retroalimentaci'' @ [CHR 0xF3] @ ''n'',
           ''Proporcione retroalimentaci'' @ [CHR 0xF3] @
           ''n clara, espec'' @ [CHR 0xED] @
           ''fica y oportuna que oriente la mejora del aprendizaje estudiantil.''),
          (''coherente'',
           ''Aseg'' @ [CHR 0xFA] @ ''rese de que las evaluaciones est'' @
           [CHR 0xE9] @
           ''n alineadas con los objetivos de aprendizaje y las actividades '' @
           ''realizadas en clase.''),
          (''criterios'',
           ''Defina y comunique claramente los criterios de evaluaci'' @
           [CHR 0xF3] @ ''n antes de cada actividad evaluativa.'')])),
      (''COMPONENTE PERSONAL'',
       (''Fortalezca las relaciones interpersonales en el aula mediante '' @
        ''el respeto, la empat'' @ [CHR 0xED] @ ''a y la comunicaci'' @
        [CHR 0xF3] @ ''n efectiva.'',
         [
          (''respeto'',
           ''Mantenga una actitud de respeto y tolerancia hacia la diversidad '' @
           ''de ideas, creencias y caracter'' @ [CHR 0xED] @
           ''sticas de los estudiantes.''),
          (''disciplina'',
           ''Establezca normas claras de convivencia y mantenga un ambiente '' @
           ''de aprendizaje ordenado y propicio.''),
          (''comunicaci'' @ [CHR 0xF3] @ ''n'',
           ''Desarrolle habilidades de escucha activa y comunicaci'' @
           [CHR 0xF3] @ ''n asertiva para mejorar la interacci'' @
           [CHR 0xF3] @ ''n con estudiantes.''),
          (''puntualidad'',
           ''Demuestre responsabilidad y compromiso cumpliendo puntualmente '' @
           ''con horarios y compromisos acad'' @ [CHR 0xE9] @ ''micos.'')]))]"

definition recomendacion_generica :: string where
  "recomendacion_generica =
     ''Se recomienda revisar y fortalecer las competencias relacionadas '' @
     ''con este aspecto mediante capacitaci'' @ [CHR 0xF3] @
     ''n y reflexi'' @ [CHR 0xF3] @ ''n sobre su pr'' @ [CHR 0xE1] @
     ''ctica docente.''"
text \<open>
  \<open>str.lower()\<close> on code points up to U+00FF: the letters A to Z and the accented capitals
  U+00C0 to U+00DE (but not the multiplication sign U+00D7) move up by 32; every other
  character stays.
\<close>

definition lower_char :: "char \<Rightarrow> char" where
  "lower_char c =
     (let n = (of_char c :: nat)
      in if (65 \<le> n \<and> n \<le> 90) \<or> (192 \<le> n \<and> n \<le> 222 \<and> n \<noteq> 215)
         then char_of (n + 32) else c)"

definition lower :: "string \<Rightarrow> string" where
  "lower s = map lower_char s"

text \<open>\<open>needle in haystack\<close> on two strings: \<open>needle\<close> occurs as a contiguous piece.\<close>

fun contains :: "string \<Rightarrow> string \<Rightarrow> bool" where
  "contains needle [] = (needle = [])"
| "contains needle (c # cs) =
     (take (length needle) (c # cs) = needle \<or> contains needle cs)"

text \<open>The loop over \<open>config["keywords"].items()\<close>: the text of the first keyword found.\<close>

fun buscar_keyword :: "(string \<times> string) list \<Rightarrow> string \<Rightarrow> string option" where
  "buscar_keyword [] texto_lower = None"
| "buscar_keyword ((keyword, recomendacion) # rest) texto_lower =
     (if contains keyword texto_lower then Some recomendacion
      else buscar_keyword rest texto_lower)"

text \<open>\<open>_obtener_recomendacion\<close>\<close>

definition obtener_recomendacion :: "string \<Rightarrow> string \<Rightarrow> string" where
  "obtener_recomendacion categoria_nombre texto_pregunta =
     (case dict_get (\<lambda>x. x) RECOMENDACIONES categoria_nombre of
        None \<Rightarrow> recomendacion_generica
      | Some (por_defecto, keywords) \<Rightarrow>
          (case buscar_keyword keywords (lower texto_pregunta) of
             Some recomendacion \<Rightarrow> recomendacion
           | None \<Rightarrow> por_defecto))"

text \<open>
  DTOs, with the prefixes \<open>rm_\<close> (\<open>RecomendacionMejora\<close>), \<open>mc_\<close> (\<open>MejoraPorCategoria\<close>),
  \<open>mreq_\<close> (\<open>PropuestaMejoraRequest\<close>) and \<open>mresp_\<close> (\<open>PropuestaMejoraResponse\<close>).
\<close>

record RecomendacionMejora =
  rm_codigo_pregunta :: string
  rm_texto_pregunta :: string
  rm_calificacion_promedio :: rat
  rm_recomendacion :: string

record MejoraPorCategoria =
  mc_categoria :: string
  mc_promedio_categoria :: rat
  mc_recomendaciones :: "RecomendacionMejora list"

record PropuestaMejoraRequest =
  mreq_documento :: string
  mreq_periodo :: "string option"

record PropuestaMejoraResponse =
  mresp_documento :: string
  mresp_nombre_completo :: string
  mresp_periodo :: "string option"
  mresp_categorias_a_mejorar :: "MejoraPorCategoria list"

text \<open>
  \<open>_calcular_promedios_por_categoria\<close>: the ratings of all evaluations, grouped by the
  category of their question in a \<open>defaultdict(list)\<close>; \<open>if calificacion\<close> is true for every
  \<open>Calificacion\<close> object (the class defines neither \<open>__bool__\<close> nor \<open>__len__\<close>) and false for
  \<open>None\<close>.
\<close>

fun mejora_cat_items ::
  "(Pregunta \<times> Calificacion option) list \<Rightarrow> (Categoria \<times> rat list) list
     \<Rightarrow> (Categoria \<times> rat list) list" where
  "mejora_cat_items [] acc = acc"
| "mejora_cat_items ((pregunta, calificacion) # rest) acc =
     (if calificacion \<noteq> None \<and> \<not> es_comentario pregunta
      then mejora_cat_items rest
             (dd_append (\<lambda>x. x) (categoria pregunta) (valor (the calificacion)) acc)
      else mejora_cat_items rest acc)"

fun mejora_cat_evaluaciones ::
  "Evaluacion list \<Rightarrow> (Categoria \<times> rat list) list \<Rightarrow> (Categoria \<times> rat list) list" where
  "mejora_cat_evaluaciones [] acc = acc"
| "mejora_cat_evaluaciones (evaluacion # evs) acc =
     mejora_cat_evaluaciones evs (mejora_cat_items (respuestas evaluacion) acc)"

fun mejora_cat_means :: "(Categoria \<times> rat list) list \<Rightarrow> error + (Categoria \<times> rat) list" where
  "mejora_cat_means [] = Inr []"
| "mejora_cat_means ((cat, cals) # rest) =
     (if cals \<noteq> [] then
        (case mean cals of
           Inl e \<Rightarrow> Inl e
         | Inr m \<Rightarrow>
             (case mejora_cat_means rest of Inl e \<Rightarrow> Inl e | Inr ms \<Rightarrow> Inr ((cat, m) # ms)))
      else mejora_cat_means rest)"

definition calcular_promedios_por_categoria ::
  "Evaluacion list \<Rightarrow> error + (Categoria \<times> rat) list" where
  "calcular_promedios_por_categoria evs =
     mejora_cat_means (mejora_cat_evaluaciones evs [])"

text \<open>
  \<open>_generar_recomendaciones\<close>: the ratings of the category, grouped by question (the keys
  of the \<open>defaultdict\<close> are \<open>Pregunta\<close> objects, compared by their code; the first object
  seen stays as the key); a recommendation for each question whose mean is below 4.0; the
  list sorted by that mean (\<open>list.sort\<close> is stable).
\<close>

fun mejora_preg_items ::
  "Categoria \<Rightarrow> (Pregunta \<times> Calificacion option) list \<Rightarrow> (Pregunta \<times> rat list) list
     \<Rightarrow> (Pregunta \<times> rat list) list" where
  "mejora_preg_items c [] acc = acc"
| "mejora_preg_items c ((pregunta, calificacion) # rest) acc =
     (if categoria pregunta = c \<and> calificacion \<noteq> None \<and> \<not> es_comentario pregunta
      then mejora_preg_items c rest
             (dd_append codigo pregunta (valor (the calificacion)) acc)
      else mejora_preg_items c rest acc)"

fun mejora_preg_evaluaciones ::
  "Categoria \<Rightarrow> Evaluacion list \<Rightarrow> (Pregunta \<times> rat list) list
     \<Rightarrow> (Pregunta \<times> rat list) list" where
  "mejora_preg_evaluaciones c [] acc = acc"
| "mejora_preg_evaluaciones c (evaluacion # evs) acc =
     mejora_preg_evaluaciones c evs (mejora_preg_items c (respuestas evaluacion) acc)"

fun mejora_recomendaciones ::
  "string \<Rightarrow> (Pregunta \<times> rat list) list \<Rightarrow> error + RecomendacionMejora list" where
  "mejora_recomendaciones categoria_nombre [] = Inr []"
| "mejora_recomendaciones categoria_nombre ((pregunta, calificaciones) # rest) =
     (case mean calificaciones of
        Inl e \<Rightarrow> Inl e
      | Inr promedio \<Rightarrow>
          (case mejora_recomendaciones categoria_nombre rest of
             Inl e \<Rightarrow> Inl e
           | Inr rs \<Rightarrow>
               if promedio < 4
               then Inr (\<lparr>rm_codigo_pregunta = codigo pregunta,
                          rm_texto_pregunta = texto pregunta,
                          rm_calificacion_promedio = promedio,
                          rm_recomendacion =
                            obtener_recomendacion categoria_nombre (texto pregunta)\<rparr> # rs)
               else Inr rs))"

definition generar_recomendaciones ::
  "Categoria \<Rightarrow> Evaluacion list \<Rightarrow> error + RecomendacionMejora list" where
  "generar_recomendaciones c evs =
     (case mejora_recomendaciones (categoria_label c) (mejora_preg_evaluaciones c evs []) of
        Inl e \<Rightarrow> Inl e
      | Inr recomendaciones \<Rightarrow> Inr (sort_key rm_calificacion_promedio recomendaciones))"

text \<open>The loop of \<open>execute\<close> over \<open>categorias_promedios.items()\<close>.\<close>

fun mejora_categorias ::
  "(Categoria \<times> rat) list \<Rightarrow> Evaluacion list \<Rightarrow> error + MejoraPorCategoria list" where
  "mejora_categorias [] evs = Inr []"
| "mejora_categorias ((c, promedio) # rest) evs =
     (if promedio < 4 then
        (case generar_recomendaciones c evs of
           Inl e \<Rightarrow> Inl e
         | Inr recomendaciones \<Rightarrow>
             (case mejora_categorias rest evs of
                Inl e \<Rightarrow> Inl e
              | Inr ms \<Rightarrow>
                  if recomendaciones \<noteq> []
                  then Inr (\<lparr>mc_categoria = categoria_label c,
                             mc_promedio_categoria = promedio,
                             mc_recomendaciones = recomendaciones\<rparr> # ms)
                  else Inr ms))
      else mejora_categorias rest evs)"

text \<open>The part of \<open>execute\<close> after the period filter.\<close>

definition mejora_calcular :: "Evaluacion list \<Rightarrow> error + MejoraPorCategoria list" where
  "mejora_calcular evs =
     (case calcular_promedios_por_categoria evs of
        Inl e \<Rightarrow> Inl e
      | Inr categorias_promedios \<Rightarrow> mejora_categorias categorias_promedios evs)"

definition no_se_encontraron :: "string \<Rightarrow> string" where
  "no_se_encontraron doc = ''No se encontraron evaluaciones para el profesor '' @ doc"

text \<open>
  The filter of the two use cases that compare the raw request string with the
  \<open>valor\<close> of the period of each evaluation.
\<close>

definition filtrar_por_valor :: "string option \<Rightarrow> Evaluacion list \<Rightarrow> Evaluacion list" where
  "filtrar_por_valor p evs =
     (if truthy p then filter (\<lambda>ev. periodo_valor (periodo ev) = the p) evs else evs)"

definition ObtenerPropuestaMejora_execute ::
  "EvaluacionRepository \<Rightarrow> PropuestaMejoraRequest \<Rightarrow> error + PropuestaMejoraResponse" where
  "ObtenerPropuestaMejora_execute repository request =
     (let evs0 = find_by_profesor repository (mreq_documento request)
      in if evs0 = [] then Inl (ProfesorNotFoundError (mreq_documento request))
         else
           (case at_index evs0 0 of Inl e \<Rightarrow> Inl e | Inr primera \<Rightarrow>
             (let evs = filtrar_por_valor (mreq_periodo request) evs0
              in if evs = []
                 then Inl (ProfesorNotFoundError (no_se_encontraron (mreq_documento request)))
                 else
                   (case mejora_calcular evs of
                      Inl e \<Rightarrow> Inl e
                    | Inr categorias_a_mejorar \<Rightarrow>
                        Inr \<lparr>mresp_documento = mreq_documento request,
                             mresp_nombre_completo = profesor_nombre primera,
                             mresp_periodo = mreq_periodo request,
                             mresp_categorias_a_mejorar = categorias_a_mejorar\<rparr>))))"

section \<open>Use case: ObtenerDetalleEvaluacionUseCase\<close>

text \<open>
  DTOs, with the prefixes \<open>rp_\<close> (\<open>RespuestaPreguntaDTO\<close>), \<open>dreq_\<close>
  (\<open>DetalleEvaluacionRequest\<close>) and \<open>dresp_\<close> (\<open>DetalleEvaluacionResponse\<close>).
\<close>

record RespuestaPreguntaDTO =
  rp_codigo_pregunta :: string
  rp_texto_pregunta :: string
  rp_categoria :: string
  rp_calificacion :: "rat option"
  rp_tipo_formulario :: string

record DetalleEvaluacionRequest =
  dreq_documento :: string
  dreq_periodo :: "string option"

record DetalleEvaluacionResponse =
  dresp_documento :: string
  dresp_nombre_completo :: string
  dresp_periodo :: "string option"
  dresp_total_evaluaciones :: nat
  dresp_respuestas :: "RespuestaPreguntaDTO list"

definition detalle_respuestas :: "Evaluacion list \<Rightarrow> RespuestaPreguntaDTO list" where
  "detalle_respuestas evs =
     concat (map (\<lambda>evaluacion.
                    map (\<lambda>(pregunta, calificacion).
                           \<lparr>rp_codigo_pregunta = codigo pregunta,
                            rp_texto_pregunta = texto pregunta,
                            rp_categoria = categoria_label (categoria pregunta),
                            rp_calificacion = map_option valor calificacion,
                            rp_tipo_formulario = tipo_formulario evaluacion\<rparr>)
                      (respuestas evaluacion)) evs)"

text \<open>
  The message of the second error: the period is appended when \<open>request.periodo\<close> is true.
\<close>

definition detalle_no_encontrado :: "string \<Rightarrow> string option \<Rightarrow> string" where
  "detalle_no_encontrado doc p =
     no_se_encontraron doc @
     (if truthy p then '' en el per'' @ [CHR 0xED] @ ''odo '' @ the p else [])"

definition ObtenerDetalleEvaluacion_execute ::
  "EvaluacionRepository \<Rightarrow> DetalleEvaluacionRequest \<Rightarrow> error + DetalleEvaluacionResponse" where
  "ObtenerDetalleEvaluacion_execute repository request =
     (let evs0 = find_by_profesor repository (dreq_documento request)
      in if evs0 = [] then Inl (ProfesorNotFoundError (dreq_documento request))
         else
           (case at_index evs0 0 of Inl e \<Rightarrow> Inl e | Inr primera \<Rightarrow>
             (let evs = filtrar_por_valor (dreq_periodo request) evs0
              in if evs = []
                 then Inl (ProfesorNotFoundError
                             (detalle_no_encontrado (dreq_documento request)
                                (dreq_periodo request)))
                 else
                   Inr \<lparr>dresp_documento = dreq_documento request,
                        dresp_nombre_completo = profesor_nombre primera,
                        dresp_periodo = dreq_periodo request,
                        dresp_total_evaluaciones = length evs,
                        dresp_respuestas = detalle_respuestas evs\<rparr>)))"

section \<open>Reference definitions for the proofs\<close>

text \<open>
  The definitions of this section are not translations of code. They state, in the words of
  the specification, what the code is compared with: the ratings that count, the
  arithmetic mean, the mean of one evaluation, and the lists of qualifying evaluations.
  \<open>calificaciones_validas\<close> says that every rating stored in an evaluation is one that
  \<open>Calificacion(v)\<close> constructs, which is how the loader creates them.
\<close>

definition calificaciones_validas :: "Evaluacion \<Rightarrow> bool" where
  "calificaciones_validas e \<longleftrightarrow>
     (\<forall>(p, c) \<in> set (respuestas e).
        case c of None \<Rightarrow> True | Some cal \<Rightarrow> Calificacion_new (valor cal) = Inr cal)"

definition spec_ratings :: "Evaluacion \<Rightarrow> rat list" where
  "spec_ratings e = [valor c. (p, Some c) \<leftarrow> respuestas e, categoria p \<noteq> COMENTARIOS]"

definition arithmetic_mean :: "rat list \<Rightarrow> rat" where
  "arithmetic_mean xs = sum_list xs / of_nat (length xs)"

definition spec_eval_mean :: "Evaluacion \<Rightarrow> rat" where
  "spec_eval_mean e = (if spec_ratings e = [] then 0 else arithmetic_mean (spec_ratings e))"

definition dd_vals :: "('k \<Rightarrow> 'i) \<Rightarrow> ('k \<times> 'v list) list \<Rightarrow> 'k \<Rightarrow> 'v list" where
  "dd_vals h d k = (case dict_get h d k of None \<Rightarrow> [] | Some vs \<Rightarrow> vs)"

definition categorias_por_label :: "Categoria list" where
  "categorias_por_label =
     [COMENTARIOS, COMPONENTE_PERSONAL, COMPORTAMIENTO, CONDUCCION, ENSENANZA_APRENDIZAJE,
      ESTRUCTURA_AULA_VIRTUAL, EVALUACION, EVALUACION_APRENDIZAJE, PLANEACION, POSGRADO]"

definition spec_cat_ratings :: "Evaluacion \<Rightarrow> Categoria \<Rightarrow> rat list" where
  "spec_cat_ratings e c = [valor cal. (p, Some cal) \<leftarrow> respuestas e, categoria p = c]"

definition spec_cat_mean :: "Evaluacion \<Rightarrow> Categoria \<Rightarrow> rat" where
  "spec_cat_mean e c =
     (if spec_cat_ratings e c = [] then 0 else arithmetic_mean (spec_cat_ratings e c))"

definition cat_entra :: "Evaluacion \<Rightarrow> Categoria \<Rightarrow> bool" where
  "cat_entra e c \<longleftrightarrow> c \<in> categorias_evaluadas e \<and> c \<noteq> COMENTARIOS \<and> spec_cat_mean e c > 0"

definition mk_categoria_dto :: "Categoria \<Rightarrow> rat \<Rightarrow> nat \<Rightarrow> PromedioCategoriaDTO" where
  "mk_categoria_dto c m n =
     \<lparr>pc_categoria = categoria_label c, pc_categoria_corta = descripcion_corta c,
      pc_promedio = m, pc_total_evaluaciones = n\<rparr>"

definition mk_actor_dto :: "string \<Rightarrow> rat \<Rightarrow> nat \<Rightarrow> PromedioActorDTO" where
  "mk_actor_dto a m n = \<lparr>pa_actor = a, pa_promedio = m, pa_total_evaluaciones = n\<rparr>"

definition actor_entra :: "Evaluacion \<Rightarrow> string \<Rightarrow> bool" where
  "actor_entra e a \<longleftrightarrow> tipo_formulario e = a \<and> spec_eval_mean e > 0"

definition spec_cat_qualifying :: "Categoria \<Rightarrow> Evaluacion list \<Rightarrow> Evaluacion list" where
  "spec_cat_qualifying c evs = filter (\<lambda>e. spec_cat_mean e c \<noteq> 0) evs"

definition spec_por_categoria :: "Evaluacion list \<Rightarrow> PromedioCategoriaDTO list" where
  "spec_por_categoria evs =
     sort_key pc_categoria
       (map (\<lambda>c. \<lparr>pc_categoria = categoria_label c,
                   pc_categoria_corta = descripcion_corta c,
                   pc_promedio =
                     arithmetic_mean (map (\<lambda>e. spec_cat_mean e c) (spec_cat_qualifying c evs)),
                   pc_total_evaluaciones = length (spec_cat_qualifying c evs)\<rparr>)
          (filter (\<lambda>c. c \<noteq> COMENTARIOS \<and> spec_cat_qualifying c evs \<noteq> [])
             todas_las_categorias))"

definition spec_actor_qualifying :: "string \<Rightarrow> Evaluacion list \<Rightarrow> Evaluacion list" where
  "spec_actor_qualifying a evs =
     filter (\<lambda>e. spec_eval_mean e \<noteq> 0) (filter (\<lambda>e. tipo_formulario e = a) evs)"

definition spec_por_actor :: "Evaluacion list \<Rightarrow> PromedioActorDTO list" where
  "spec_por_actor evs =
     sort_key pa_actor
       (map (\<lambda>a. \<lparr>pa_actor = a,
                   pa_promedio = arithmetic_mean (map spec_eval_mean (spec_actor_qualifying a evs)),
                   pa_total_evaluaciones = length (spec_actor_qualifying a evs)\<rparr>)
          (filter (\<lambda>a. spec_actor_qualifying a evs \<noteq> [])
             (remdups (map tipo_formulario evs))))"

text \<open>
  One admissible iteration order for a set of categories (the declaration order of the
  enum), used to instantiate the parameter \<open>iter\<close> in concrete evaluations.
\<close>

definition iter_declaracion :: "Categoria set \<Rightarrow> Categoria list" where
  "iter_declaracion S = filter (\<lambda>c. c \<in> S) todas_las_categorias"

subsection \<open>Reference definitions for the recommendation engine\<close>










subsection \<open>Reference definitions for the repository\<close>

text \<open>
  The evaluations of a document in input order, the \<open>Profesor\<close> that \<open>get_profesores\<close> creates
  when a document is seen for the first time, and the \<open>Profesor\<close> it holds for a document at
  the end: named after the first evaluation of the document, with all its evaluations.
\<close>

definition evaluaciones_de :: "string \<Rightarrow> Evaluacion list \<Rightarrow> Evaluacion list" where
  "evaluaciones_de d evs = filter (\<lambda>e. profesor_documento e = d) evs"



section \<open>Example data (tests/unit/test\_calcular\_promedio\_profesor.py)\<close>

text \<open>
  The two evaluations of \<open>test_filtra_por_periodo_correctamente\<close>, an evaluation whose only
  question is unanswered, the repository holding the first two, and the response the use
  case returns for them without a period filter.
\<close>

definition ejemplo_pregunta :: Pregunta where
  "ejemplo_pregunta =
     \<lparr>codigo = ''P364'', categoria = ENSENANZA_APRENDIZAJE, texto = ''Pregunta de prueba''\<rparr>"

definition ejemplo_eval1 :: Evaluacion where
  "ejemplo_eval1 =
     agregar_respuesta
       \<lparr>eval_id = ''1'', profesor_documento = ''123456'',
        profesor_nombre = ''Juan P'' @ [CHR 0xE9] @ ''rez'', periodo = Periodo ''2025-1'',
        tipo_formulario = ''ESTUDIANTE V3'', respuestas = []\<rparr>
       ejemplo_pregunta (Some \<lparr>valor = 3, MIN_VALOR = 1, MAX_VALOR = 5\<rparr>)"

definition ejemplo_eval2 :: Evaluacion where
  "ejemplo_eval2 =
     agregar_respuesta
       \<lparr>eval_id = ''2'', profesor_documento = ''123456'',
        profesor_nombre = ''Juan P'' @ [CHR 0xE9] @ ''rez'', periodo = Periodo ''2025-2'',
        tipo_formulario = ''ESTUDIANTE V3'', respuestas = []\<rparr>
       ejemplo_pregunta (Some \<lparr>valor = 5, MIN_VALOR = 1, MAX_VALOR = 5\<rparr>)"

definition ejemplo_eval_sin_respuestas :: Evaluacion where
  "ejemplo_eval_sin_respuestas =
     agregar_respuesta
       \<lparr>eval_id = ''3'', profesor_documento = ''123456'',
        profesor_nombre = ''Juan P'' @ [CHR 0xE9] @ ''rez'', periodo = Periodo ''2025-2'',
        tipo_formulario = ''ESTUDIANTE V3'', respuestas = []\<rparr>
       ejemplo_pregunta None"

definition ejemplo_repo :: EvaluacionRepository where
  "ejemplo_repo = EvaluacionRepository_init [ejemplo_eval1, ejemplo_eval2]"

definition ejemplo_respuesta :: PromedioProfesorResponse where
  "ejemplo_respuesta =
     \<lparr>pr_documento = ''123456'',
      pr_nombre_completo = ''Juan P'' @ [CHR 0xE9] @ ''rez'',
      pr_periodo = None,
      pr_promedio_general = 4,
      pr_total_evaluaciones = 2,
      pr_promedios_por_categoria =
        [\<lparr>pc_categoria = ''ENSE'' @ [CHR 0xD1] @ ''ANZA-APRENDIZAJE'',
          pc_categoria_corta = ''Ense'' @ [CHR 0xF1] @ ''anza-Aprendizaje'',
          pc_promedio = 4, pc_total_evaluaciones = 2\<rparr>],
      pr_promedios_por_actor =
        [\<lparr>pa_actor = ''ESTUDIANTE V3'', pa_promedio = 4, pa_total_evaluaciones = 2\<rparr>]\<rparr>"

section \<open>Example data for the recommendation engine\<close>






text \<open>
  The response of the detail use case for the two evaluations of the test when the request
  carries the empty string as its period.
\<close>

definition ejemplo_detalle_respuesta :: DetalleEvaluacionResponse where
  "ejemplo_detalle_respuesta =
     \<lparr>dresp_documento = ''123456'',
      dresp_nombre_completo = ''Juan P'' @ [CHR 0xE9] @ ''rez'',
      dresp_periodo = Some '''',
      dresp_total_evaluaciones = 2,
      dresp_respuestas =
        [\<lparr>rp_codigo_pregunta = ''P364'', rp_texto_pregunta = ''Pregunta de prueba'',
          rp_categoria = ''ENSE'' @ [CHR 0xD1] @ ''ANZA-APRENDIZAJE'',
          rp_calificacion = Some 3, rp_tipo_formulario = ''ESTUDIANTE V3''\<rparr>,
         \<lparr>rp_codigo_pregunta = ''P364'', rp_texto_pregunta = ''Pregunta de prueba'',
          rp_categoria = ''ENSE'' @ [CHR 0xD1] @ ''ANZA-APRENDIZAJE'',
          rp_calificacion = Some 5, rp_tipo_formulario = ''ESTUDIANTE V3''\<rparr>]\<rparr>"



section \<open>Calificacion: construction and the passing threshold\<close>

lemma Calificacion_new_Inr:
  "Calificacion_new v = Inr c \<longleftrightarrow> 1 \<le> v \<and> v \<le> 5 \<and> c = \<lparr>valor = v, MIN_VALOR = 1, MAX_VALOR = 5\<rparr>"
  by (auto simp: Calificacion_new_def Calificacion_post_init_def)

lemma Calificacion_new_Inl:
  "Calificacion_new v = Inl e \<longleftrightarrow> \<not> (1 \<le> v \<and> v \<le> 5) \<and> e = InvalidCalificacionError v"
  by (auto simp: Calificacion_new_def Calificacion_post_init_def)

text \<open>
  C6. \<open>Calificacion(v)\<close> succeeds exactly when 1.0 \<open>\<le>\<close> v \<open>\<le>\<close> 5.0; otherwise it raises
  \<open>InvalidCalificacionError\<close>, a validation error, carrying v. A rating that was
  constructed holds v, and \<open>es_aprobatoria()\<close> is true exactly when its value is at
  least 3.0.
\<close>

theorem C6_calificacion_range:
  "((\<exists>c. Calificacion_new v = Inr c) \<longleftrightarrow> 1 \<le> v \<and> v \<le> 5) \<and>
   (\<not> (1 \<le> v \<and> v \<le> 5) \<longrightarrow>
      Calificacion_new v = Inl (InvalidCalificacionError v) \<and>
      is_validation_error (InvalidCalificacionError v)) \<and>
   (\<forall>r. Calificacion_new v = Inr r \<longrightarrow>
      valor r = v \<and> (es_aprobatoria r \<longleftrightarrow> valor r \<ge> 3))"
  by (auto simp: Calificacion_new_def Calificacion_post_init_def es_aprobatoria_def)

theorem C6_calificacion_range_witness:
  "Calificacion_new 3 = Inr \<lparr>valor = 3, MIN_VALOR = 1, MAX_VALOR = 5\<rparr> \<and>
   es_aprobatoria \<lparr>valor = 3, MIN_VALOR = 1, MAX_VALOR = 5\<rparr> \<and>
   Calificacion_new (11 / 2) = Inl (InvalidCalificacionError (11 / 2)) \<and>
   Calificacion_new (1 / 2) = Inl (InvalidCalificacionError (1 / 2))"
  using C6_calificacion_range [of 3] C6_calificacion_range [of "11 / 2"]
    C6_calificacion_range [of "1 / 2"]
  by (simp add: Calificacion_new_def Calificacion_post_init_def es_aprobatoria_def)

section \<open>Auxiliary lemmas: Periodo\<close>

lemma is_digit_not_special:
  "is_digit c \<Longrightarrow> \<not> is_space c \<and> c \<noteq> CHR ''-'' \<and> c \<noteq> CHR ''+'' \<and> c \<noteq> CHR ''_''"
  by (auto simp: is_digit_def is_space_def)

lemma digit_value_range: "is_digit c \<Longrightarrow> 0 \<le> digit_value c \<and> digit_value c \<le> 9"
  by (auto simp: is_digit_def digit_value_def)

lemma digit_value_inj: "is_digit c \<Longrightarrow> is_digit d \<Longrightarrow> digit_value c = digit_value d \<Longrightarrow> c = d"
  by (auto simp: is_digit_def digit_value_def)

lemma shape_cases:
  "shape_YYYY_N s \<longleftrightarrow>
     (\<exists>a b c d t. s = [a, b, c, d, CHR ''-'', t] \<and> is_digit a \<and> is_digit b \<and> is_digit c \<and>
        is_digit d \<and> (t = CHR ''1'' \<or> t = CHR ''2''))"
proof
  assume h: "shape_YYYY_N s"
  then have l: "length s = 6" by (simp add: shape_YYYY_N_def)
  then have "length s = Suc (Suc (Suc (Suc (Suc (Suc 0)))))" by simp
  then obtain a b c d e t where s: "s = [a, b, c, d, e, t]"
    by (auto simp: length_Suc_conv)
  with h show "\<exists>a b c d t. s = [a, b, c, d, CHR ''-'', t] \<and> is_digit a \<and> is_digit b \<and>
     is_digit c \<and> is_digit d \<and> (t = CHR ''1'' \<or> t = CHR ''2'')"
    by (simp add: shape_YYYY_N_def)
next
  assume "\<exists>a b c d t. s = [a, b, c, d, CHR ''-'', t] \<and> is_digit a \<and> is_digit b \<and> is_digit c \<and>
        is_digit d \<and> (t = CHR ''1'' \<or> t = CHR ''2'')"
  then show "shape_YYYY_N s" by (auto simp: shape_YYYY_N_def)
qed

lemma PATTERN_match_iff:
  "PATTERN_match s \<longleftrightarrow> shape_YYYY_N s \<or> (\<exists>t. s = t @ [newline] \<and> shape_YYYY_N t)"
proof
  assume h: "PATTERN_match s"
  then have c: "drop 6 s = [] \<or> drop 6 s = [newline]" and l: "6 \<le> length s"
    by (simp_all add: PATTERN_match_def)
  from c show "shape_YYYY_N s \<or> (\<exists>t. s = t @ [newline] \<and> shape_YYYY_N t)"
  proof
    assume "drop 6 s = []"
    with l have "length s = 6" by simp
    with h show ?thesis by (simp add: PATTERN_match_def shape_YYYY_N_def)
  next
    assume d: "drop 6 s = [newline]"
    then have s: "s = take 6 s @ [newline]" by (metis append_take_drop_id)
    have "length (take 6 s) = 6" using l by simp
    moreover have "take 4 (take 6 s) = take 4 s" by simp
    moreover have "take 6 s ! 4 = s ! 4" "take 6 s ! 5 = s ! 5" by simp_all
    ultimately have "shape_YYYY_N (take 6 s)"
      using h by (simp add: PATTERN_match_def shape_YYYY_N_def)
    with s show ?thesis by blast
  qed
next
  assume "shape_YYYY_N s \<or> (\<exists>t. s = t @ [newline] \<and> shape_YYYY_N t)"
  then show "PATTERN_match s"
  proof
    assume "shape_YYYY_N s"
    then show ?thesis by (simp add: PATTERN_match_def shape_YYYY_N_def)
  next
    assume "\<exists>t. s = t @ [newline] \<and> shape_YYYY_N t"
    then obtain t where s: "s = t @ [newline]" and t: "shape_YYYY_N t" by blast
    from t have l: "length t = 6" by (simp add: shape_YYYY_N_def)
    then have "take 4 s = take 4 t" "s ! 4 = t ! 4" "s ! 5 = t ! 5" "drop 6 s = [newline]"
      by (simp_all add: s nth_append)
    with t l show ?thesis by (simp add: PATTERN_match_def shape_YYYY_N_def s)
  qed
qed

lemma is_space_newline: "is_space newline"
  by (simp add: is_space_def newline_def)

lemma py_int_digits4:
  assumes "is_digit a" "is_digit b" "is_digit c" "is_digit d"
  shows "py_int [a, b, c, d] = Inr (decimal_value [a, b, c, d])"
  using assms is_digit_not_special[of a] is_digit_not_special[of b]
    is_digit_not_special[of c] is_digit_not_special[of d]
  by (simp add: py_int_def strip_def)

lemma py_int_digit1:
  assumes "is_digit t"
  shows "py_int [t] = Inr (digit_value t)" "py_int [t, newline] = Inr (digit_value t)"
  using assms is_digit_not_special[of t] is_space_newline
  by (simp_all add: py_int_def strip_def decimal_value_def)

lemma split_on_shape:
  assumes "is_digit a" "is_digit b" "is_digit c" "is_digit d" "t = CHR ''1'' \<or> t = CHR ''2''"
  shows "split_on (CHR ''-'') ([a, b, c, d, CHR ''-'', t] @ r) =
         (if r = [] \<or> r = [newline] then [[a, b, c, d], t # r] else split_on (CHR ''-'') ([a, b, c, d, CHR ''-'', t] @ r))"
  using assms is_digit_not_special[of a] is_digit_not_special[of b]
    is_digit_not_special[of c] is_digit_not_special[of d]
  by (auto simp: newline_def)

lemma is_digit_12: "t = CHR ''1'' \<or> t = CHR ''2'' \<Longrightarrow> is_digit t"
  by (auto simp: is_digit_def)

lemma anio_semestre_valid:
  assumes "PATTERN_match s"
  shows "anio (Periodo s) = Inr (decimal_value (take 4 s)) \<and>
         semestre (Periodo s) = Inr (digit_value (s ! 5))"
proof -
  from assms obtain u r where s: "s = u @ r" and u: "shape_YYYY_N u" and r: "r = [] \<or> r = [newline]"
    unfolding PATTERN_match_iff by (metis append_Nil2)
  from u obtain a b c d t where uu: "u = [a, b, c, d, CHR ''-'', t]"
    and dg: "is_digit a" "is_digit b" "is_digit c" "is_digit d"
    and t: "t = CHR ''1'' \<or> t = CHR ''2''"
    unfolding shape_cases by blast
  have sp: "split_on (CHR ''-'') s = [[a, b, c, d], t # r]"
    using split_on_shape[OF dg t, of r] r by (simp add: s uu)
  have tk: "take 4 s = [a, b, c, d]" "s ! 5 = t"
    by (simp_all add: s uu)
  have pt: "py_int (t # r) = Inr (digit_value t)"
    using r py_int_digit1[OF is_digit_12[OF t]] by auto
  show ?thesis
    by (simp add: anio_def semestre_def sp at_index_def tk py_int_digits4[OF dg] pt)
qed

lemma periodo_key_valid:
  assumes "PATTERN_match s"
  shows "periodo_key (Periodo s) = (decimal_value (take 4 s), digit_value (s ! 5))"
  using anio_semestre_valid[OF assms] by (simp add: periodo_key_def)

lemma Periodo_lt_key:
  assumes "PATTERN_match (periodo_valor p)" "PATTERN_match (periodo_valor q)"
  shows "Periodo_lt p q = Inr (periodo_key p < periodo_key q)"
proof -
  obtain s where p: "p = Periodo s" by (cases p)
  obtain s' where q: "q = Periodo s'" by (cases q)
  show ?thesis
    using assms anio_semestre_valid[of s] anio_semestre_valid[of s']
    by (auto simp: p q Periodo_lt_def periodo_key_def)
qed

lemma decimal_step:
  fixes x y x' y' :: int
  assumes h: "10 * x + y = 10 * x' + y'" and b: "0 \<le> y" "y \<le> 9" "0 \<le> y'" "y' \<le> 9"
  shows "x = x' \<and> y = y'"
proof -
  have "(10 * x + y) mod 10 = (10 * x' + y') mod 10" using h by simp
  then have "y mod 10 = y' mod 10" by simp
  then have "y = y'" using b by simp
  with h show ?thesis by simp
qed

lemma decimal4_inj:
  assumes "is_digit a" "is_digit b" "is_digit c" "is_digit d"
    "is_digit a'" "is_digit b'" "is_digit c'" "is_digit d'"
    "decimal_value [a, b, c, d] = decimal_value [a', b', c', d']"
  shows "a = a' \<and> b = b' \<and> c = c' \<and> d = d'"
proof -
  have e: "10 * (10 * (10 * digit_value a + digit_value b) + digit_value c) + digit_value d =
           10 * (10 * (10 * digit_value a' + digit_value b') + digit_value c') + digit_value d'"
    using assms by (simp add: decimal_value_def)
  from decimal_step[OF e] digit_value_range[OF assms(4)] digit_value_range[OF assms(8)]
  have 1: "10 * (10 * digit_value a + digit_value b) + digit_value c =
           10 * (10 * digit_value a' + digit_value b') + digit_value c'"
    and d: "digit_value d = digit_value d'" by simp_all
  from decimal_step[OF 1] digit_value_range[OF assms(3)] digit_value_range[OF assms(7)]
  have 2: "10 * digit_value a + digit_value b = 10 * digit_value a' + digit_value b'"
    and c: "digit_value c = digit_value c'" by simp_all
  from decimal_step[OF 2] digit_value_range[OF assms(2)] digit_value_range[OF assms(6)]
  have "digit_value a = digit_value a'" and "digit_value b = digit_value b'" by simp_all
  with c d have "digit_value a = digit_value a' \<and> digit_value b = digit_value b' \<and>
        digit_value c = digit_value c' \<and> digit_value d = digit_value d'" by simp
  then show ?thesis
    using digit_value_inj[OF assms(1) assms(5)] digit_value_inj[OF assms(2) assms(6)]
      digit_value_inj[OF assms(3) assms(7)] digit_value_inj[OF assms(4) assms(8)]
    by simp
qed

lemma periodo_key_inj_shape:
  assumes "shape_YYYY_N s" "shape_YYYY_N s'"
    and "periodo_key (Periodo s) = periodo_key (Periodo s')"
  shows "s = s'"
proof -
  from assms(1) obtain a b c d t where s: "s = [a, b, c, d, CHR ''-'', t]"
    and dg: "is_digit a" "is_digit b" "is_digit c" "is_digit d"
    and t: "t = CHR ''1'' \<or> t = CHR ''2''"
    unfolding shape_cases by blast
  from assms(2) obtain a' b' c' d' t' where s': "s' = [a', b', c', d', CHR ''-'', t']"
    and dg': "is_digit a'" "is_digit b'" "is_digit c'" "is_digit d'"
    and t': "t' = CHR ''1'' \<or> t' = CHR ''2''"
    unfolding shape_cases by blast
  have m: "PATTERN_match s" "PATTERN_match s'"
    using assms(1,2) by (simp_all add: PATTERN_match_iff)
  have k1: "periodo_key (Periodo s) = (decimal_value [a, b, c, d], digit_value t)"
    using periodo_key_valid[OF m(1)] by (simp add: s)
  have k1': "periodo_key (Periodo s') = (decimal_value [a', b', c', d'], digit_value t')"
    using periodo_key_valid[OF m(2)] by (simp add: s')
  from assms(3) have k: "decimal_value [a, b, c, d] = decimal_value [a', b', c', d']"
    and k2: "digit_value t = digit_value t'"
    unfolding k1 k1' by simp_all
  from decimal4_inj[OF dg dg' k] have "a = a' \<and> b = b' \<and> c = c' \<and> d = d'" .
  moreover have "t = t'"
    using k2 digit_value_inj[OF is_digit_12[OF t] is_digit_12[OF t']] by simp
  ultimately show ?thesis by (simp add: s s')
qed

section \<open>Auxiliary lemmas: means, dictionaries and the aggregation loops\<close>

lemma mean_nonempty: "xs \<noteq> [] \<Longrightarrow> mean xs = Inr (arithmetic_mean xs)"
  by (simp add: mean_def arithmetic_mean_def)

lemma spec_ratings_eq:
  "map (\<lambda>(pregunta, cal). float_of (the cal))
     (filter (\<lambda>(pregunta, cal). cal \<noteq> None \<and> \<not> es_comentario pregunta) rs)
   = concat (map (\<lambda>(p, c). case c of None \<Rightarrow> [] | Some c \<Rightarrow> if categoria p \<noteq> COMENTARIOS then [valor c] else []) rs)"
  by (induction rs) (auto simp: float_of_def es_comentario_def split: option.splits)

lemma calcular_promedio_general_eq:
  "calcular_promedio_general e = Inr (spec_eval_mean e)"
  unfolding calcular_promedio_general_def spec_eval_mean_def spec_ratings_def Let_def spec_ratings_eq
  apply (auto simp: mean_nonempty)
  done

lemma map_err_total: "(\<And>x. f x = Inr (g x)) \<Longrightarrow> map_err f xs = Inr (map g xs)"
  by (induction xs) auto

lemma uc_calcular_promedio_general_eq:
  "evs \<noteq> [] \<Longrightarrow> uc_calcular_promedio_general evs = Inr (arithmetic_mean (map spec_eval_mean evs))"
  by (simp add: uc_calcular_promedio_general_def map_err_total[of calcular_promedio_general spec_eval_mean] calcular_promedio_general_eq mean_nonempty)

lemma dict_get_dd_append:
  "dict_get h (dd_append h k v d) c =
     (if h k = h c then Some (dd_vals h d k @ [v]) else dict_get h d c)"
  by (induction d) (auto simp: dd_vals_def)

lemma dd_vals_dd_append:
  "dd_vals h (dd_append h k v d) c = (if h k = h c then dd_vals h d k @ [v] else dd_vals h d c)"
  by (simp add: dd_vals_def dict_get_dd_append)

lemma keys_dd_append:
  "map (\<lambda>x. h (fst x)) (dd_append h k v d) =
     (if h k \<in> (\<lambda>x. h (fst x)) ` set d then map (\<lambda>x. h (fst x)) d
      else map (\<lambda>x. h (fst x)) d @ [h k])"
proof (induction d)
  case Nil
  then show ?case by simp
next
  case (Cons a d)
  show ?case
  proof (cases "h (fst a) = h k")
    case True
    then show ?thesis by (cases a) simp
  next
    case False
    then have "h k \<noteq> h (fst a)" by simp
    with False Cons show ?thesis by (cases a) (simp split: if_splits)
  qed
qed

lemma dict_get_None_iff: "dict_get h d k = None \<longleftrightarrow> h k \<notin> (\<lambda>x. h (fst x)) ` set d"
proof (induction d)
  case Nil
  then show ?case by simp
next
  case (Cons a d)
  then show ?case by (cases a; cases "h (fst a) = h k") auto
qed

lemma dict_get_Some_mem: "dict_get h d k = Some v \<Longrightarrow> \<exists>k'. (k', v) \<in> set d \<and> h k' = h k"
  by (induction d) (force split: if_splits)+

lemma dict_get_distinct:
  "distinct (map (\<lambda>x. h (fst x)) d) \<Longrightarrow> (k, v) \<in> set d \<Longrightarrow> dict_get h d k = Some v"
  by (induction d) (force simp: image_iff)+

lemma dd_count_dd_incr: "dd_count (dd_incr k d) c = (if c = k then dd_count d k + 1 else dd_count d c)"
  by (induction d) (auto simp: dd_count_def)

lemma dd_nonempty_append:
  "\<forall>x \<in> set d. snd x \<noteq> [] \<Longrightarrow> \<forall>x \<in> set (dd_append h k v d). snd x \<noteq> []"
  by (induction d) (force split: if_splits)+

lemma sorted_labels: "sorted (map categoria_label categorias_por_label)"
  by (simp add: categorias_por_label_def)

lemma distinct_labels: "distinct (map categoria_label categorias_por_label)"
  by (simp add: categorias_por_label_def)

lemma set_categorias_por_label: "set categorias_por_label = UNIV"
proof -
  have "c \<in> set categorias_por_label" for c
    by (cases c) (simp_all add: categorias_por_label_def)
  then show ?thesis by auto
qed

lemma sort_todas_las_categorias:
  "sort_key categoria_label todas_las_categorias = categorias_por_label"
  apply (rule sort_key_inj_key_eq)
    apply (simp add: categorias_por_label_def todas_las_categorias_def)
  using distinct_labels set_categorias_por_label
   apply (metis distinct_map inj_on_subset subset_UNIV)
  apply (rule sorted_labels)
  done

lemma spec_cat_ratings_eq:
  "map (\<lambda>(pregunta, cal). float_of (the cal))
     (filter (\<lambda>(pregunta, cal). cal \<noteq> None \<and> pertenece_a_categoria pregunta c) rs)
   = concat (map (\<lambda>(p, ca). case ca of None \<Rightarrow> [] | Some ca \<Rightarrow> if categoria p = c then [valor ca] else []) rs)"
  by (induction rs) (auto simp: float_of_def pertenece_a_categoria_def split: option.splits if_splits)

lemma calcular_promedio_por_categoria_eq:
  "calcular_promedio_por_categoria e c = Inr (spec_cat_mean e c)"
  unfolding calcular_promedio_por_categoria_def spec_cat_mean_def spec_cat_ratings_def Let_def
    spec_cat_ratings_eq
  by (auto simp: mean_nonempty)

lemma por_categoria_inner_delta:
  "distinct cs \<Longrightarrow>
   \<exists>cp' cc'. por_categoria_inner e cs (cp, cc) = Inr (cp', cc') \<and>
     (\<forall>c. dd_vals (\<lambda>x. x) cp' c = dd_vals (\<lambda>x. x) cp c @
              (if c \<in> set cs \<and> c \<noteq> COMENTARIOS \<and> spec_cat_mean e c > 0 then [spec_cat_mean e c] else [])) \<and>
     (\<forall>c. dd_count cc' c = dd_count cc c +
              (if c \<in> set cs \<and> c \<noteq> COMENTARIOS \<and> spec_cat_mean e c > 0 then 1 else 0)) \<and>
     ((\<forall>x \<in> set cp. snd x \<noteq> []) \<longrightarrow> (\<forall>x \<in> set cp'. snd x \<noteq> [])) \<and>
     (distinct (map fst cp) \<longrightarrow> distinct (map fst cp'))"
proof (induction cs arbitrary: cp cc)
  case Nil
  then show ?case by simp
next
  case (Cons a cs)
  then have d: "distinct cs" and na: "a \<notin> set cs" by simp_all
  show ?case
  proof (cases "a \<noteq> COMENTARIOS \<and> spec_cat_mean e a > 0")
    case True
    let ?cp = "dd_append (\<lambda>x. x) a (spec_cat_mean e a) cp"
    let ?cc = "dd_incr a cc"
    from Cons.IH[OF d, of ?cp ?cc] obtain cp' cc' where
      r: "por_categoria_inner e cs (?cp, ?cc) = Inr (cp', cc')"
      and v: "\<forall>c. dd_vals (\<lambda>x. x) cp' c = dd_vals (\<lambda>x. x) ?cp c @
              (if c \<in> set cs \<and> c \<noteq> COMENTARIOS \<and> spec_cat_mean e c > 0 then [spec_cat_mean e c] else [])"
      and n: "\<forall>c. dd_count cc' c = dd_count ?cc c +
              (if c \<in> set cs \<and> c \<noteq> COMENTARIOS \<and> spec_cat_mean e c > 0 then 1 else 0)"
      and ne: "(\<forall>x \<in> set ?cp. snd x \<noteq> []) \<longrightarrow> (\<forall>x \<in> set cp'. snd x \<noteq> [])"
      and di: "distinct (map fst ?cp) \<longrightarrow> distinct (map fst cp')"
      by blast
    have 1: "por_categoria_inner e (a # cs) (cp, cc) = Inr (cp', cc')"
      using True r by (simp add: calcular_promedio_por_categoria_eq)
    have 2: "\<forall>c. dd_vals (\<lambda>x. x) cp' c = dd_vals (\<lambda>x. x) cp c @
              (if c \<in> set (a # cs) \<and> c \<noteq> COMENTARIOS \<and> spec_cat_mean e c > 0 then [spec_cat_mean e c] else [])"
      using v True na by (auto simp: dd_vals_dd_append)
    have 3: "\<forall>c. dd_count cc' c = dd_count cc c +
              (if c \<in> set (a # cs) \<and> c \<noteq> COMENTARIOS \<and> spec_cat_mean e c > 0 then 1 else 0)"
      using n True na by (auto simp: dd_count_dd_incr)
    have 4: "(\<forall>x \<in> set cp. snd x \<noteq> []) \<longrightarrow> (\<forall>x \<in> set cp'. snd x \<noteq> [])"
      using ne dd_nonempty_append[of cp "\<lambda>x. x" a "spec_cat_mean e a"] by blast
    have 5: "distinct (map fst cp) \<longrightarrow> distinct (map fst cp')"
      using di keys_dd_append[of "\<lambda>x. x" a "spec_cat_mean e a" cp] by (auto split: if_splits)
    from 1 2 3 4 5 show ?thesis by blast
  next
    case False
    from Cons.IH[OF d, of cp cc] obtain cp' cc' where
      r: "por_categoria_inner e cs (cp, cc) = Inr (cp', cc')"
      and v: "\<forall>c. dd_vals (\<lambda>x. x) cp' c = dd_vals (\<lambda>x. x) cp c @
              (if c \<in> set cs \<and> c \<noteq> COMENTARIOS \<and> spec_cat_mean e c > 0 then [spec_cat_mean e c] else [])"
      and n: "\<forall>c. dd_count cc' c = dd_count cc c +
              (if c \<in> set cs \<and> c \<noteq> COMENTARIOS \<and> spec_cat_mean e c > 0 then 1 else 0)"
      and ne: "(\<forall>x \<in> set cp. snd x \<noteq> []) \<longrightarrow> (\<forall>x \<in> set cp'. snd x \<noteq> [])"
      and di: "distinct (map fst cp) \<longrightarrow> distinct (map fst cp')"
      by blast
    have 1: "por_categoria_inner e (a # cs) (cp, cc) = Inr (cp', cc')"
      using False r by (auto simp: calcular_promedio_por_categoria_eq)
    have 2: "\<forall>c. dd_vals (\<lambda>x. x) cp' c = dd_vals (\<lambda>x. x) cp c @
              (if c \<in> set (a # cs) \<and> c \<noteq> COMENTARIOS \<and> spec_cat_mean e c > 0 then [spec_cat_mean e c] else [])"
      using v False by auto
    have 3: "\<forall>c. dd_count cc' c = dd_count cc c +
              (if c \<in> set (a # cs) \<and> c \<noteq> COMENTARIOS \<and> spec_cat_mean e c > 0 then 1 else 0)"
      using n False by auto
    from 1 2 3 ne di show ?thesis by blast
  qed
qed

lemma por_categoria_outer_delta:
  assumes it: "\<And>S. set (iter S) = S \<and> distinct (iter S)"
  shows "\<exists>cp' cc'. por_categoria_outer iter evs (cp, cc) = Inr (cp', cc') \<and>
     (\<forall>c. dd_vals (\<lambda>x. x) cp' c = dd_vals (\<lambda>x. x) cp c @
              map (\<lambda>e. spec_cat_mean e c) (filter (\<lambda>e. cat_entra e c) evs)) \<and>
     (\<forall>c. dd_count cc' c = dd_count cc c + length (filter (\<lambda>e. cat_entra e c) evs)) \<and>
     ((\<forall>x \<in> set cp. snd x \<noteq> []) \<longrightarrow> (\<forall>x \<in> set cp'. snd x \<noteq> [])) \<and>
     (distinct (map fst cp) \<longrightarrow> distinct (map fst cp'))"
proof (induction evs arbitrary: cp cc)
  case Nil
  then show ?case by simp
next
  case (Cons e evs)
  from it have d: "distinct (iter (categorias_evaluadas e))"
    and s: "set (iter (categorias_evaluadas e)) = categorias_evaluadas e" by simp_all
  from por_categoria_inner_delta[OF d, of e cp cc] obtain cp1 cc1 where
    r1: "por_categoria_inner e (iter (categorias_evaluadas e)) (cp, cc) = Inr (cp1, cc1)"
    and v1: "\<forall>c. dd_vals (\<lambda>x. x) cp1 c = dd_vals (\<lambda>x. x) cp c @
              (if cat_entra e c then [spec_cat_mean e c] else [])"
    and n1: "\<forall>c. dd_count cc1 c = dd_count cc c + (if cat_entra e c then 1 else 0)"
    and ne1: "(\<forall>x \<in> set cp. snd x \<noteq> []) \<longrightarrow> (\<forall>x \<in> set cp1. snd x \<noteq> [])"
    and di1: "distinct (map fst cp) \<longrightarrow> distinct (map fst cp1)"
    unfolding s cat_entra_def by blast
  from Cons.IH[of cp1 cc1] obtain cp' cc' where
    r: "por_categoria_outer iter evs (cp1, cc1) = Inr (cp', cc')"
    and v: "\<forall>c. dd_vals (\<lambda>x. x) cp' c = dd_vals (\<lambda>x. x) cp1 c @
              map (\<lambda>e. spec_cat_mean e c) (filter (\<lambda>e. cat_entra e c) evs)"
    and n: "\<forall>c. dd_count cc' c = dd_count cc1 c + length (filter (\<lambda>e. cat_entra e c) evs)"
    and ne: "(\<forall>x \<in> set cp1. snd x \<noteq> []) \<longrightarrow> (\<forall>x \<in> set cp'. snd x \<noteq> [])"
    and di: "distinct (map fst cp1) \<longrightarrow> distinct (map fst cp')"
    by blast
  have 1: "por_categoria_outer iter (e # evs) (cp, cc) = Inr (cp', cc')"
    using r1 r by simp
  have 2: "\<forall>c. dd_vals (\<lambda>x. x) cp' c = dd_vals (\<lambda>x. x) cp c @
              map (\<lambda>e. spec_cat_mean e c) (filter (\<lambda>e. cat_entra e c) (e # evs))"
    using v v1 by simp
  have 3: "\<forall>c. dd_count cc' c = dd_count cc c + length (filter (\<lambda>e. cat_entra e c) (e # evs))"
    using n n1 by simp
  from 1 2 3 ne ne1 di di1 show ?case by blast
qed

lemma por_categoria_resultados_eq:
  "por_categoria_resultados cp cc =
     Inr (map (\<lambda>x. mk_categoria_dto (fst x) (arithmetic_mean (snd x)) (dd_count cc (fst x)))
            (filter (\<lambda>x. snd x \<noteq> []) cp))"
  by (induction cp cc rule: por_categoria_resultados.induct)
     (simp_all add: mean_nonempty mk_categoria_dto_def)

lemma inj_categoria_label: "inj categoria_label"
proof -
  have "inj_on categoria_label (set categorias_por_label)"
    using distinct_labels by (simp add: distinct_map)
  then show ?thesis by (simp add: set_categorias_por_label)
qed

lemma dd_vals_keys:
  assumes "\<forall>x \<in> set d. snd x \<noteq> []"
  shows "fst ` set d = {k. dd_vals (\<lambda>x. x) d k \<noteq> []}"
proof -
  have "dict_get (\<lambda>x. x) d k = Some v \<Longrightarrow> v \<noteq> []" for k v
    using dict_get_Some_mem[of "\<lambda>x. x" d k v] assms by auto
  moreover have "dict_get (\<lambda>x. x) d k = None \<longleftrightarrow> k \<notin> fst ` set d" for k
    using dict_get_None_iff[of "\<lambda>x. x" d k] by simp
  ultimately show ?thesis
    by (auto simp: dd_vals_def split: option.splits)
qed

lemma dd_vals_member:
  "distinct (map fst d) \<Longrightarrow> x \<in> set d \<Longrightarrow> snd x = dd_vals (\<lambda>x. x) d (fst x)"
  using dict_get_distinct[of "\<lambda>x. x" d "fst x" "snd x"] by (simp add: dd_vals_def)

lemma uc_calcular_por_categoria_char:
  assumes it: "\<And>S. set (iter S) = S \<and> distinct (iter S)"
  shows "uc_calcular_por_categoria iter evs =
     Inr (map (\<lambda>c. mk_categoria_dto c
                 (arithmetic_mean (map (\<lambda>e. spec_cat_mean e c) (filter (\<lambda>e. cat_entra e c) evs)))
                 (length (filter (\<lambda>e. cat_entra e c) evs)))
            (filter (\<lambda>c. filter (\<lambda>e. cat_entra e c) evs \<noteq> []) categorias_por_label))"
proof -
  let ?V = "\<lambda>c. map (\<lambda>e. spec_cat_mean e c) (filter (\<lambda>e. cat_entra e c) evs)"
  let ?N = "\<lambda>c. length (filter (\<lambda>e. cat_entra e c) evs)"
  let ?D = "\<lambda>c. mk_categoria_dto c (arithmetic_mean (?V c)) (?N c)"
  from por_categoria_outer_delta[OF it, of evs "[]" "[]"] obtain cp cc where
    r: "por_categoria_outer iter evs ([], []) = Inr (cp, cc)"
    and v: "\<forall>c. dd_vals (\<lambda>x. x) cp c = ?V c"
    and n: "\<forall>c. dd_count cc c = ?N c"
    and ne: "\<forall>x \<in> set cp. snd x \<noteq> []"
    and di: "distinct (map fst cp)"
    by (auto simp: dd_vals_def dd_count_def)
  have f: "filter (\<lambda>x. snd x \<noteq> []) cp = cp"
    using ne by (simp add: filter_id_conv)
  have m: "map (\<lambda>x. mk_categoria_dto (fst x) (arithmetic_mean (snd x)) (dd_count cc (fst x))) cp
           = map ?D (map fst cp)"
    using dd_vals_member[OF di] v n by (simp add: comp_def)
  have keys: "set (map fst cp) = {c. ?V c \<noteq> []}"
    using dd_vals_keys[OF ne] v by simp
  let ?ys = "filter (\<lambda>c. filter (\<lambda>e. cat_entra e c) evs \<noteq> []) categorias_por_label"
  have sys: "set ?ys = {c. ?V c \<noteq> []}"
    by (auto simp: set_categorias_por_label)
  have dys: "distinct ?ys"
    using distinct_labels by (simp add: distinct_map)
  have seq: "set (map fst cp) = set ?ys"
    unfolding keys sys by (rule refl)
  have ms: "mset (map fst cp) = mset ?ys"
    by (rule iffD1[OF set_eq_iff_mset_eq_distinct[OF di dys] seq])
  have lab: "pc_categoria (?D c) = categoria_label c" for c
    by (simp add: mk_categoria_dto_def)
  have inj: "inj_on pc_categoria (set (map ?D (map fst cp)))"
  proof (rule inj_onI)
    fix x y
    assume "x \<in> set (map ?D (map fst cp))" "y \<in> set (map ?D (map fst cp))"
      and e: "pc_categoria x = pc_categoria y"
    then obtain a b where x: "x = ?D a" and y: "y = ?D b" by auto
    from e have "categoria_label a = categoria_label b" by (simp add: x y lab)
    then have "a = b" using inj_categoria_label by (simp add: inj_eq)
    then show "x = y" by (simp add: x y)
  qed
  have so: "sorted (map pc_categoria (map ?D ?ys))"
    using sorted_labels by (simp add: comp_def lab sorted_filter)
  have ms2: "mset (map ?D (map fst cp)) = mset (map ?D ?ys)"
    using arg_cong[OF ms, of "image_mset ?D"] by (simp only: mset_map)
  have "sort_key pc_categoria (map ?D (map fst cp)) = map ?D ?ys"
    by (rule sort_key_inj_key_eq[OF ms2 inj so])
  then show ?thesis
    using r by (simp add: uc_calcular_por_categoria_def por_categoria_resultados_eq f m)
qed

lemma por_actor_loop_delta:
  "\<exists>ap' ac'. por_actor_loop evs (ap, ac) = Inr (ap', ac') \<and>
     (\<forall>a. dd_vals (\<lambda>x. x) ap' a = dd_vals (\<lambda>x. x) ap a @
              map spec_eval_mean (filter (\<lambda>e. actor_entra e a) evs)) \<and>
     (\<forall>a. dd_count ac' a = dd_count ac a + length (filter (\<lambda>e. actor_entra e a) evs)) \<and>
     ((\<forall>x \<in> set ap. snd x \<noteq> []) \<longrightarrow> (\<forall>x \<in> set ap'. snd x \<noteq> [])) \<and>
     (distinct (map fst ap) \<longrightarrow> distinct (map fst ap'))"
proof (induction evs arbitrary: ap ac)
  case Nil
  then show ?case by simp
next
  case (Cons e evs)
  show ?case
  proof (cases "spec_eval_mean e > 0")
    case True
    let ?ap = "dd_append (\<lambda>x. x) (tipo_formulario e) (spec_eval_mean e) ap"
    let ?ac = "dd_incr (tipo_formulario e) ac"
    from Cons.IH[of ?ap ?ac] obtain ap' ac' where
      r: "por_actor_loop evs (?ap, ?ac) = Inr (ap', ac')"
      and v: "\<forall>a. dd_vals (\<lambda>x. x) ap' a = dd_vals (\<lambda>x. x) ?ap a @
              map spec_eval_mean (filter (\<lambda>e. actor_entra e a) evs)"
      and n: "\<forall>a. dd_count ac' a = dd_count ?ac a + length (filter (\<lambda>e. actor_entra e a) evs)"
      and ne: "(\<forall>x \<in> set ?ap. snd x \<noteq> []) \<longrightarrow> (\<forall>x \<in> set ap'. snd x \<noteq> [])"
      and di: "distinct (map fst ?ap) \<longrightarrow> distinct (map fst ap')"
      by blast
    have 1: "por_actor_loop (e # evs) (ap, ac) = Inr (ap', ac')"
      using True r by (simp add: calcular_promedio_general_eq)
    have 2: "\<forall>a. dd_vals (\<lambda>x. x) ap' a = dd_vals (\<lambda>x. x) ap a @
              map spec_eval_mean (filter (\<lambda>e. actor_entra e a) (e # evs))"
      using v True by (auto simp: dd_vals_dd_append actor_entra_def)
    have 3: "\<forall>a. dd_count ac' a = dd_count ac a + length (filter (\<lambda>e. actor_entra e a) (e # evs))"
      using n True by (auto simp: dd_count_dd_incr actor_entra_def)
    have 4: "(\<forall>x \<in> set ap. snd x \<noteq> []) \<longrightarrow> (\<forall>x \<in> set ap'. snd x \<noteq> [])"
      using ne dd_nonempty_append[of ap "\<lambda>x. x" "tipo_formulario e" "spec_eval_mean e"] by blast
    have 5: "distinct (map fst ap) \<longrightarrow> distinct (map fst ap')"
      using di keys_dd_append[of "\<lambda>x. x" "tipo_formulario e" "spec_eval_mean e" ap]
      by (auto split: if_splits)
    from 1 2 3 4 5 show ?thesis by blast
  next
    case False
    from Cons.IH[of ap ac] obtain ap' ac' where
      r: "por_actor_loop evs (ap, ac) = Inr (ap', ac')"
      and v: "\<forall>a. dd_vals (\<lambda>x. x) ap' a = dd_vals (\<lambda>x. x) ap a @
              map spec_eval_mean (filter (\<lambda>e. actor_entra e a) evs)"
      and n: "\<forall>a. dd_count ac' a = dd_count ac a + length (filter (\<lambda>e. actor_entra e a) evs)"
      and ne: "(\<forall>x \<in> set ap. snd x \<noteq> []) \<longrightarrow> (\<forall>x \<in> set ap'. snd x \<noteq> [])"
      and di: "distinct (map fst ap) \<longrightarrow> distinct (map fst ap')"
      by blast
    have 1: "por_actor_loop (e # evs) (ap, ac) = Inr (ap', ac')"
      using False r by (simp add: calcular_promedio_general_eq)
    have 2: "\<forall>a. dd_vals (\<lambda>x. x) ap' a = dd_vals (\<lambda>x. x) ap a @
              map spec_eval_mean (filter (\<lambda>e. actor_entra e a) (e # evs))"
      using v False by (auto simp: actor_entra_def)
    have 3: "\<forall>a. dd_count ac' a = dd_count ac a + length (filter (\<lambda>e. actor_entra e a) (e # evs))"
      using n False by (auto simp: actor_entra_def)
    from 1 2 3 ne di show ?thesis by blast
  qed
qed

lemma por_actor_resultados_eq:
  "por_actor_resultados ap ac =
     Inr (map (\<lambda>x. mk_actor_dto (fst x) (arithmetic_mean (snd x)) (dd_count ac (fst x)))
            (filter (\<lambda>x. snd x \<noteq> []) ap))"
  by (induction ap ac rule: por_actor_resultados.induct)
     (simp_all add: mean_nonempty mk_actor_dto_def)

lemma uc_calcular_por_actor_char:
  "uc_calcular_por_actor evs =
     Inr (map (\<lambda>a. mk_actor_dto a
                 (arithmetic_mean (map spec_eval_mean (filter (\<lambda>e. actor_entra e a) evs)))
                 (length (filter (\<lambda>e. actor_entra e a) evs)))
            (sort (remdups (map tipo_formulario (filter (\<lambda>e. spec_eval_mean e > 0) evs)))))"
proof -
  let ?V = "\<lambda>a. map spec_eval_mean (filter (\<lambda>e. actor_entra e a) evs)"
  let ?N = "\<lambda>a. length (filter (\<lambda>e. actor_entra e a) evs)"
  let ?D = "\<lambda>a. mk_actor_dto a (arithmetic_mean (?V a)) (?N a)"
  from por_actor_loop_delta[of evs "[]" "[]"] obtain ap ac where
    r: "por_actor_loop evs ([], []) = Inr (ap, ac)"
    and v: "\<forall>a. dd_vals (\<lambda>x. x) ap a = ?V a"
    and n: "\<forall>a. dd_count ac a = ?N a"
    and ne: "\<forall>x \<in> set ap. snd x \<noteq> []"
    and di: "distinct (map fst ap)"
    by (auto simp: dd_vals_def dd_count_def)
  have f: "filter (\<lambda>x. snd x \<noteq> []) ap = ap"
    using ne by (simp add: filter_id_conv)
  have m: "map (\<lambda>x. mk_actor_dto (fst x) (arithmetic_mean (snd x)) (dd_count ac (fst x))) ap
           = map ?D (map fst ap)"
    using dd_vals_member[OF di] v n by (simp add: comp_def)
  have keys: "set (map fst ap) = {a. ?V a \<noteq> []}"
    using dd_vals_keys[OF ne] v by simp
  let ?ys = "sort (remdups (map tipo_formulario (filter (\<lambda>e. spec_eval_mean e > 0) evs)))"
  have "set ?ys = tipo_formulario ` {e \<in> set evs. spec_eval_mean e > 0}"
    by simp
  also have "\<dots> = {a. \<exists>e \<in> set evs. actor_entra e a}"
    by (auto simp: actor_entra_def)
  also have "\<dots> = {a. ?V a \<noteq> []}"
    by (simp add: filter_empty_conv)
  finally have sys: "set ?ys = {a. ?V a \<noteq> []}" .
  have dys: "distinct ?ys" by simp
  have seq: "set (map fst ap) = set ?ys"
    unfolding keys sys by (rule refl)
  have ms: "mset (map fst ap) = mset ?ys"
    by (rule iffD1[OF set_eq_iff_mset_eq_distinct[OF di dys] seq])
  have ms2: "mset (map ?D (map fst ap)) = mset (map ?D ?ys)"
    using arg_cong[OF ms, of "image_mset ?D"] by (simp only: mset_map)
  have lab: "pa_actor (?D a) = a" for a
    by (simp add: mk_actor_dto_def)
  have inj: "inj_on pa_actor (set (map ?D (map fst ap)))"
  proof (rule inj_onI)
    fix x y
    assume "x \<in> set (map ?D (map fst ap))" "y \<in> set (map ?D (map fst ap))"
      and e: "pa_actor x = pa_actor y"
    then obtain a b where x: "x = ?D a" and y: "y = ?D b" by auto
    from e have "a = b" by (simp add: x y lab)
    then show "x = y" by (simp add: x y)
  qed
  have mp: "map pa_actor (map ?D ?ys) = ?ys"
    by (simp add: comp_def lab)
  have so: "sorted (map pa_actor (map ?D ?ys))"
    unfolding mp by (rule sorted_sort)
  have "sort_key pa_actor (map ?D (map fst ap)) = map ?D ?ys"
    by (rule sort_key_inj_key_eq[OF ms2 inj so])
  then show ?thesis
    using r by (simp add: uc_calcular_por_actor_def por_actor_resultados_eq f m)
qed

lemma valid_rating_bounds:
  "calificaciones_validas e \<Longrightarrow> (p, Some cal) \<in> set (respuestas e) \<Longrightarrow> 1 \<le> valor cal \<and> valor cal \<le> 5"
  by (auto simp: calificaciones_validas_def Calificacion_new_Inr)

lemma spec_ratings_bounds:
  "calificaciones_validas e \<Longrightarrow> x \<in> set (spec_ratings e) \<Longrightarrow> 1 \<le> x \<and> x \<le> 5"
  by (auto simp: spec_ratings_def split: option.splits if_splits dest: valid_rating_bounds)

lemma spec_cat_ratings_bounds:
  "calificaciones_validas e \<Longrightarrow> x \<in> set (spec_cat_ratings e c) \<Longrightarrow> 1 \<le> x \<and> x \<le> 5"
  by (auto simp: spec_cat_ratings_def split: option.splits if_splits dest: valid_rating_bounds)

lemma sum_list_lower: "\<forall>x \<in> set xs. a \<le> x \<Longrightarrow> a * of_nat (length xs) \<le> sum_list (xs :: rat list)"
  by (induction xs) (auto simp: algebra_simps)

lemma sum_list_upper: "\<forall>x \<in> set xs. x \<le> a \<Longrightarrow> sum_list (xs :: rat list) \<le> a * of_nat (length xs)"
  by (induction xs) (auto simp: algebra_simps)

lemma arithmetic_mean_bounds:
  assumes "xs \<noteq> []" "\<forall>x \<in> set xs. a \<le> x \<and> x \<le> b"
  shows "a \<le> arithmetic_mean xs \<and> arithmetic_mean xs \<le> b"
proof -
  have p: "0 < (of_nat (length xs) :: rat)" using assms(1) by simp
  show ?thesis
    unfolding arithmetic_mean_def
    using sum_list_lower[of xs a] sum_list_upper[of xs b] assms(2) p
    by (simp add: le_divide_eq divide_le_eq)
qed

lemma por_categoria_inner_total: "\<exists>acc'. por_categoria_inner e cs acc = Inr acc'"
  by (induction e cs acc rule: por_categoria_inner.induct)
     (auto simp: calcular_promedio_por_categoria_eq)

lemma por_categoria_outer_total: "\<exists>acc'. por_categoria_outer iter evs acc = Inr acc'"
proof (induction evs arbitrary: acc)
  case Nil
  then show ?case by simp
next
  case (Cons e evs)
  obtain acc1 where "por_categoria_inner e (iter (categorias_evaluadas e)) acc = Inr acc1"
    using por_categoria_inner_total by blast
  then show ?case using Cons.IH[of acc1] by simp
qed

lemma uc_calcular_por_categoria_total: "\<exists>r. uc_calcular_por_categoria iter evs = Inr r"
proof -
  obtain cp cc where "por_categoria_outer iter evs ([], []) = Inr (cp, cc)"
    using por_categoria_outer_total[of iter evs "([], [])"] by (cases) auto
  then show ?thesis
    by (simp add: uc_calcular_por_categoria_def por_categoria_resultados_eq)
qed

lemma execute_after_filter:
  assumes "find_by_profesor repo (req_documento req) \<noteq> []"
    and "promedio_filtrar req (find_by_profesor repo (req_documento req)) = Inr evs"
    and "evs \<noteq> []"
  shows "\<exists>resp. CalcularPromedioProfesor_execute iter repo req = Inr resp \<and>
           pr_documento resp = req_documento req \<and>
           pr_nombre_completo resp = profesor_nombre (hd evs) \<and>
           pr_periodo resp = req_periodo req \<and>
           pr_promedio_general resp = arithmetic_mean (map spec_eval_mean evs) \<and>
           pr_total_evaluaciones resp = length evs \<and>
           uc_calcular_por_categoria iter evs = Inr (pr_promedios_por_categoria resp) \<and>
           uc_calcular_por_actor evs = Inr (pr_promedios_por_actor resp)"
proof -
  obtain pc where pc: "uc_calcular_por_categoria iter evs = Inr pc"
    using uc_calcular_por_categoria_total by blast
  obtain pa where pa: "uc_calcular_por_actor evs = Inr pa"
    using uc_calcular_por_actor_char by blast
  have ix: "at_index evs 0 = Inr (hd evs)"
    using assms(3) by (cases evs) (simp_all add: at_index_def)
  show ?thesis
    using assms pc pa ix
    by (simp add: CalcularPromedioProfesor_execute_def Let_def
        uc_calcular_promedio_general_eq)
qed

lemma ejemplo_find: "find_by_profesor ejemplo_repo ''123456'' = [ejemplo_eval1, ejemplo_eval2]"
  by (simp add: ejemplo_repo_def EvaluacionRepository_init_def find_by_profesor_def
      build_profesor_index_def ejemplo_eval1_def ejemplo_eval2_def agregar_respuesta_def)

lemma ejemplo_means: "spec_eval_mean ejemplo_eval1 = 3" "spec_eval_mean ejemplo_eval2 = 5"
  by (simp_all add: spec_eval_mean_def spec_ratings_def arithmetic_mean_def ejemplo_eval1_def
      ejemplo_eval2_def agregar_respuesta_def ejemplo_pregunta_def)

lemma ejemplo_periodo: "Periodo_new ''2025-2'' = Inr (Periodo ''2025-2'')"
  by (simp add: Periodo_new_def PATTERN_match_def is_digit_def)

lemma spec_eval_mean_valid:
  assumes "calificaciones_validas e"
  shows "(spec_eval_mean e = 0 \<or> 1 \<le> spec_eval_mean e) \<and>
         (0 < spec_eval_mean e \<longleftrightarrow> spec_ratings e \<noteq> []) \<and>
         (spec_eval_mean e \<noteq> 0 \<longleftrightarrow> spec_ratings e \<noteq> [])"
proof (cases "spec_ratings e = []")
  case True
  then show ?thesis by (simp add: spec_eval_mean_def)
next
  case False
  then have "1 \<le> arithmetic_mean (spec_ratings e)"
    using arithmetic_mean_bounds[of "spec_ratings e" 1 5] spec_ratings_bounds[OF assms] by blast
  with False show ?thesis by (simp add: spec_eval_mean_def)
qed

lemma spec_cat_mean_valid:
  assumes "calificaciones_validas e"
  shows "(spec_cat_mean e c = 0 \<or> 1 \<le> spec_cat_mean e c) \<and>
         (0 < spec_cat_mean e c \<longleftrightarrow> spec_cat_ratings e c \<noteq> []) \<and>
         (spec_cat_mean e c \<noteq> 0 \<longleftrightarrow> spec_cat_ratings e c \<noteq> [])"
proof (cases "spec_cat_ratings e c = []")
  case True
  then show ?thesis by (simp add: spec_cat_mean_def)
next
  case False
  then have "1 \<le> arithmetic_mean (spec_cat_ratings e c)"
    using arithmetic_mean_bounds[of "spec_cat_ratings e c" 1 5]
      spec_cat_ratings_bounds[OF assms] by blast
  with False show ?thesis by (simp add: spec_cat_mean_def)
qed

lemma length_spec_ratings: "length (spec_ratings e) = total_respuestas_validas e"
proof -
  have "length (concat (map (\<lambda>(p, c). case c of None \<Rightarrow> [] | Some c \<Rightarrow> if categoria p \<noteq> COMENTARIOS then [valor c] else []) rs))
        = length (filter (\<lambda>(pregunta, cal). cal \<noteq> None \<and> \<not> es_comentario pregunta) rs)" for rs
    by (induction rs) (auto simp: es_comentario_def split: option.splits)
  then show ?thesis
    by (simp add: spec_ratings_def total_respuestas_validas_def)
qed

lemma length_spec_cat_ratings:
  "length (spec_cat_ratings e c) = length (obtener_respuestas_por_categoria e c)"
proof -
  have "length (concat (map (\<lambda>(p, ca). case ca of None \<Rightarrow> [] | Some ca \<Rightarrow> if categoria p = c then [valor ca] else []) rs))
        = length (filter (\<lambda>(pregunta, cal). cal \<noteq> None \<and> pertenece_a_categoria pregunta c) rs)" for rs
    by (induction rs) (auto simp: pertenece_a_categoria_def split: option.splits if_splits)
  then show ?thesis
    by (simp add: spec_cat_ratings_def obtener_respuestas_por_categoria_def)
qed

lemma spec_cat_ratings_evaluada:
  assumes "spec_cat_ratings e c \<noteq> []" "c \<noteq> COMENTARIOS"
  shows "c \<in> categorias_evaluadas e"
proof -
  from assms(1) obtain p cal where "(p, Some cal) \<in> set (respuestas e)" "categoria p = c"
    by (auto simp: spec_cat_ratings_def split: option.splits if_splits)
  then show ?thesis
    using assms(2) by (force simp: categorias_evaluadas_def es_comentario_def)
qed

lemma cat_entra_valid:
  assumes "calificaciones_validas e"
  shows "cat_entra e c \<longleftrightarrow> c \<noteq> COMENTARIOS \<and> spec_cat_mean e c \<noteq> 0"
  using spec_cat_mean_valid[OF assms, of c] spec_cat_ratings_evaluada[of e c]
  by (auto simp: cat_entra_def)

lemma actor_entra_valid:
  assumes "calificaciones_validas e"
  shows "actor_entra e a \<longleftrightarrow> tipo_formulario e = a \<and> spec_eval_mean e \<noteq> 0"
  using spec_eval_mean_valid[OF assms] by (auto simp: actor_entra_def)

lemma iter_declaracion_ok: "set (iter_declaracion S) = S \<and> distinct (iter_declaracion S)"
proof -
  have "set todas_las_categorias = UNIV"
  proof -
    have "c \<in> set todas_las_categorias" for c
      by (cases c) (simp_all add: todas_las_categorias_def)
    then show ?thesis by auto
  qed
  moreover have "distinct todas_las_categorias"
    by (simp add: todas_las_categorias_def)
  ultimately show ?thesis by (auto simp: iter_declaracion_def)
qed

lemma sort_por_label:
  assumes lab: "\<And>c. key (D c) = categoria_label c"
  shows "sort_key key (map D (filter P todas_las_categorias)) =
         map D (filter P categorias_por_label)"
proof -
  have d1: "distinct (filter P todas_las_categorias)"
    by (simp add: todas_las_categorias_def)
  have d2: "distinct (filter P categorias_por_label)"
    using distinct_labels by (simp add: distinct_map)
  have "set todas_las_categorias = set categorias_por_label"
    by (simp add: todas_las_categorias_def categorias_por_label_def insert_commute)
  then have seq: "set (filter P todas_las_categorias) = set (filter P categorias_por_label)"
    by simp
  have ms: "mset (filter P todas_las_categorias) = mset (filter P categorias_por_label)"
    by (rule iffD1[OF set_eq_iff_mset_eq_distinct[OF d1 d2] seq])
  have ms2: "mset (map D (filter P todas_las_categorias)) =
             mset (map D (filter P categorias_por_label))"
    using arg_cong[OF ms, of "image_mset D"] by (simp only: mset_map)
  have inj: "inj_on key (set (map D (filter P todas_las_categorias)))"
  proof (rule inj_onI)
    fix x y
    assume "x \<in> set (map D (filter P todas_las_categorias))"
      "y \<in> set (map D (filter P todas_las_categorias))" and e: "key x = key y"
    then obtain a b where x: "x = D a" and y: "y = D b" by auto
    from e have "categoria_label a = categoria_label b" by (simp add: x y lab)
    then have "a = b" using inj_categoria_label by (simp add: inj_eq)
    then show "x = y" by (simp add: x y)
  qed
  have so: "sorted (map key (map D (filter P categorias_por_label)))"
    using sorted_labels by (simp add: comp_def lab sorted_filter)
  show ?thesis by (rule sort_key_inj_key_eq[OF ms2 inj so])
qed

lemma por_categoria_spec:
  assumes it: "\<And>S. set (iter S) = S \<and> distinct (iter S)"
    and va: "\<forall>e \<in> set evs. calificaciones_validas e"
  shows "uc_calcular_por_categoria iter evs = Inr (spec_por_categoria evs)"
proof -
  have fe: "filter (\<lambda>e. cat_entra e c) evs =
            (if c = COMENTARIOS then [] else spec_cat_qualifying c evs)" for c
    unfolding spec_cat_qualifying_def
    using va by (auto simp: cat_entra_valid intro: filter_cong)
  have P: "(filter (\<lambda>e. cat_entra e c) evs \<noteq> []) =
           (c \<noteq> COMENTARIOS \<and> spec_cat_qualifying c evs \<noteq> [])" for c
    by (simp add: fe)
  let ?D = "\<lambda>c. \<lparr>pc_categoria = categoria_label c,
                   pc_categoria_corta = descripcion_corta c,
                   pc_promedio =
                     arithmetic_mean (map (\<lambda>e. spec_cat_mean e c) (spec_cat_qualifying c evs)),
                   pc_total_evaluaciones = length (spec_cat_qualifying c evs)\<rparr>"
  let ?P = "\<lambda>c. c \<noteq> COMENTARIOS \<and> spec_cat_qualifying c evs \<noteq> []"
  have "map (\<lambda>c. mk_categoria_dto c
                 (arithmetic_mean (map (\<lambda>e. spec_cat_mean e c) (filter (\<lambda>e. cat_entra e c) evs)))
                 (length (filter (\<lambda>e. cat_entra e c) evs)))
            (filter (\<lambda>c. filter (\<lambda>e. cat_entra e c) evs \<noteq> []) categorias_por_label)
        = map ?D (filter ?P categorias_por_label)"
    unfolding P by (rule map_cong) (auto simp: fe mk_categoria_dto_def)
  also have "\<dots> = spec_por_categoria evs"
    unfolding spec_por_categoria_def
    by (rule sort_por_label[symmetric]) simp
  finally show ?thesis
    using uc_calcular_por_categoria_char[OF it, of evs] by simp
qed

lemma por_actor_spec:
  assumes va: "\<forall>e \<in> set evs. calificaciones_validas e"
  shows "uc_calcular_por_actor evs = Inr (spec_por_actor evs)"
proof -
  have fe: "filter (\<lambda>e. actor_entra e a) evs = spec_actor_qualifying a evs" for a
    unfolding spec_actor_qualifying_def filter_filter
    using va by (auto simp: actor_entra_valid intro: filter_cong)
  have pos: "filter (\<lambda>e. spec_eval_mean e > 0) evs = filter (\<lambda>e. spec_eval_mean e \<noteq> 0) evs"
    using va spec_eval_mean_valid by (auto intro: filter_cong)
  let ?D = "\<lambda>a. \<lparr>pa_actor = a,
                   pa_promedio = arithmetic_mean (map spec_eval_mean (spec_actor_qualifying a evs)),
                   pa_total_evaluaciones = length (spec_actor_qualifying a evs)\<rparr>"
  let ?xs = "filter (\<lambda>a. spec_actor_qualifying a evs \<noteq> []) (remdups (map tipo_formulario evs))"
  let ?ys = "sort (remdups (map tipo_formulario (filter (\<lambda>e. spec_eval_mean e > 0) evs)))"
  have code: "uc_calcular_por_actor evs = Inr (map ?D ?ys)"
    using uc_calcular_por_actor_char[of evs] by (simp add: fe mk_actor_dto_def)
  have d1: "distinct ?xs" by simp
  have d2: "distinct ?ys" by simp
  have "set ?xs = {a. \<exists>e \<in> set evs. tipo_formulario e = a \<and> spec_eval_mean e \<noteq> 0}"
    by (auto simp: spec_actor_qualifying_def filter_empty_conv)
  moreover have "set ?ys = {a. \<exists>e \<in> set evs. tipo_formulario e = a \<and> spec_eval_mean e \<noteq> 0}"
    unfolding pos by auto
  ultimately have seq: "set ?xs = set ?ys" by (rule trans[OF _ sym])
  have ms: "mset ?xs = mset ?ys"
    by (rule iffD1[OF set_eq_iff_mset_eq_distinct[OF d1 d2] seq])
  have ms2: "mset (map ?D ?xs) = mset (map ?D ?ys)"
    using arg_cong[OF ms, of "image_mset ?D"] by (simp only: mset_map)
  have inj: "inj_on pa_actor (set (map ?D ?xs))"
    by (rule inj_onI) auto
  have mp: "map pa_actor (map ?D ?ys) = ?ys"
    by (simp add: comp_def)
  have so: "sorted (map pa_actor (map ?D ?ys))"
    unfolding mp by (rule sorted_sort)
  have "sort_key pa_actor (map ?D ?xs) = map ?D ?ys"
    by (rule sort_key_inj_key_eq[OF ms2 inj so])
  then show ?thesis
    unfolding code spec_por_actor_def by simp
qed

lemma promedio_filtrar_nonempty:
  "promedio_filtrar req evs0 = Inr evs \<Longrightarrow> evs0 \<noteq> [] \<Longrightarrow> evs \<noteq> []"
  by (auto simp: promedio_filtrar_def Let_def split: if_splits sum.splits)

lemma execute_Inr_filter:
  assumes "CalcularPromedioProfesor_execute iter repo req = Inr resp"
  shows "find_by_profesor repo (req_documento req) \<noteq> [] \<and>
         (\<exists>evs. promedio_filtrar req (find_by_profesor repo (req_documento req)) = Inr evs)"
  using assms
  by (auto simp: CalcularPromedioProfesor_execute_def Let_def split: if_splits sum.splits)

lemma ejemplo_execute:
  "CalcularPromedioProfesor_execute iter_declaracion ejemplo_repo
     \<lparr>req_documento = ''123456'', req_periodo = None\<rparr> = Inr ejemplo_respuesta"
  by code_simp

lemma ejemplo_validas:
  "calificaciones_validas ejemplo_eval1" "calificaciones_validas ejemplo_eval2"
  by (simp_all add: calificaciones_validas_def ejemplo_eval1_def ejemplo_eval2_def
      agregar_respuesta_def Calificacion_new_def Calificacion_post_init_def)

lemma ejemplo_spec_por_categoria:
  "spec_por_categoria [ejemplo_eval1, ejemplo_eval2] =
     [\<lparr>pc_categoria = ''ENSE'' @ [CHR 0xD1] @ ''ANZA-APRENDIZAJE'',
       pc_categoria_corta = ''Ense'' @ [CHR 0xF1] @ ''anza-Aprendizaje'',
       pc_promedio = 4, pc_total_evaluaciones = 2\<rparr>]"
  by code_simp

lemma ejemplo_spec_por_actor:
  "spec_por_actor [ejemplo_eval1, ejemplo_eval2] =
     [\<lparr>pa_actor = ''ESTUDIANTE V3'', pa_promedio = 4, pa_total_evaluaciones = 2\<rparr>]"
  by code_simp

section \<open>The Average Calculator\<close>

text \<open>
  C1. For a non-empty list of evaluations, \<open>_calcular_promedio_general\<close> returns the
  arithmetic mean of the means of the evaluations, where the mean of one evaluation
  (\<open>spec_eval_mean\<close>) is taken over its answered ratings on questions outside COMENTARIOS
  and is 0 when there is none; every evaluation counts in the outer mean, also one whose
  mean is 0. Whenever \<open>execute\<close> returns a response, its overall average is this mean of
  means over the evaluations left by the period filter, and its total is their number.
  For the two evaluations of the test (rating 3.0 in 2025-1, rating 5.0 in 2025-2) the
  unfiltered average is 4.0 with total 2, and the filter 2025-2 gives 5.0 with total 1.
\<close>

theorem C1_overall_average_mean_of_means:
  "(evs \<noteq> [] \<longrightarrow>
      uc_calcular_promedio_general evs = Inr (arithmetic_mean (map spec_eval_mean evs))) \<and>
   (CalcularPromedioProfesor_execute iter repo req = Inr resp \<longrightarrow>
      (\<exists>fs. promedio_filtrar req (find_by_profesor repo (req_documento req)) = Inr fs \<and>
            fs \<noteq> [] \<and>
            pr_promedio_general resp = arithmetic_mean (map spec_eval_mean fs) \<and>
            pr_total_evaluaciones resp = length fs)) \<and>
   (\<exists>r. CalcularPromedioProfesor_execute iter ejemplo_repo
           \<lparr>req_documento = ''123456'', req_periodo = None\<rparr> = Inr r \<and>
        pr_promedio_general r = 4 \<and> pr_total_evaluaciones r = 2) \<and>
   (\<exists>r. CalcularPromedioProfesor_execute iter ejemplo_repo
           \<lparr>req_documento = ''123456'', req_periodo = Some ''2025-2''\<rparr> = Inr r \<and>
        pr_promedio_general r = 5 \<and> pr_total_evaluaciones r = 1)"
proof (intro conjI impI)
  assume "evs \<noteq> []"
  then show "uc_calcular_promedio_general evs = Inr (arithmetic_mean (map spec_eval_mean evs))"
    by (rule uc_calcular_promedio_general_eq)
next
  assume a: "CalcularPromedioProfesor_execute iter repo req = Inr resp"
  from execute_Inr_filter[OF a] obtain fs where
    ne: "find_by_profesor repo (req_documento req) \<noteq> []"
    and fs: "promedio_filtrar req (find_by_profesor repo (req_documento req)) = Inr fs"
    by blast
  have fne: "fs \<noteq> []" using promedio_filtrar_nonempty[OF fs ne] .
  from execute_after_filter[OF ne fs fne, of iter] a fs fne
  show "\<exists>fs. promedio_filtrar req (find_by_profesor repo (req_documento req)) = Inr fs \<and>
            fs \<noteq> [] \<and>
            pr_promedio_general resp = arithmetic_mean (map spec_eval_mean fs) \<and>
            pr_total_evaluaciones resp = length fs"
    by auto
next
  let ?req = "\<lparr>req_documento = ''123456'', req_periodo = None\<rparr>"
  have f: "promedio_filtrar ?req (find_by_profesor ejemplo_repo (req_documento ?req))
           = Inr [ejemplo_eval1, ejemplo_eval2]"
    by (simp add: promedio_filtrar_def truthy_def ejemplo_find)
  from execute_after_filter[of ejemplo_repo ?req "[ejemplo_eval1, ejemplo_eval2]" iter, OF _ f]
  show "\<exists>r. CalcularPromedioProfesor_execute iter ejemplo_repo ?req = Inr r \<and>
        pr_promedio_general r = 4 \<and> pr_total_evaluaciones r = 2"
    by (auto simp: ejemplo_find ejemplo_means arithmetic_mean_def)
next
  let ?req = "\<lparr>req_documento = ''123456'', req_periodo = Some ''2025-2''\<rparr>"
  have f: "promedio_filtrar ?req (find_by_profesor ejemplo_repo (req_documento ?req))
           = Inr [ejemplo_eval2]"
    by (simp add: promedio_filtrar_def truthy_def ejemplo_find ejemplo_periodo Let_def)
       (simp add: ejemplo_eval1_def ejemplo_eval2_def agregar_respuesta_def)
  from execute_after_filter[of ejemplo_repo ?req "[ejemplo_eval2]" iter, OF _ f]
  show "\<exists>r. CalcularPromedioProfesor_execute iter ejemplo_repo ?req = Inr r \<and>
        pr_promedio_general r = 5 \<and> pr_total_evaluaciones r = 1"
    by (auto simp: ejemplo_find ejemplo_means arithmetic_mean_def)
qed

theorem C1_overall_average_mean_of_means_witness:
  "[ejemplo_eval1, ejemplo_eval_sin_respuestas] \<noteq> [] \<and>
   uc_calcular_promedio_general [ejemplo_eval1, ejemplo_eval_sin_respuestas] = Inr (3 / 2) \<and>
   CalcularPromedioProfesor_execute iter_declaracion ejemplo_repo
     \<lparr>req_documento = ''123456'', req_periodo = None\<rparr> = Inr ejemplo_respuesta \<and>
   pr_promedio_general ejemplo_respuesta = 4 \<and>
   pr_total_evaluaciones ejemplo_respuesta = 2"
proof -
  note c = C1_overall_average_mean_of_means
            [where evs = "[ejemplo_eval1, ejemplo_eval_sin_respuestas]"
               and iter = iter_declaracion and repo = ejemplo_repo
               and req = "\<lparr>req_documento = ''123456'', req_periodo = None\<rparr>"
               and resp = ejemplo_respuesta]
  have ne: "[ejemplo_eval1, ejemplo_eval_sin_respuestas] \<noteq> []"
    by simp
  have m: "spec_eval_mean ejemplo_eval_sin_respuestas = 0"
    by (simp add: spec_eval_mean_def spec_ratings_def ejemplo_eval_sin_respuestas_def
        agregar_respuesta_def)
  have am: "arithmetic_mean (map spec_eval_mean [ejemplo_eval1, ejemplo_eval_sin_respuestas]) = 3 / 2"
    by (simp add: m ejemplo_means arithmetic_mean_def)
  have 1: "uc_calcular_promedio_general [ejemplo_eval1, ejemplo_eval_sin_respuestas] = Inr (3 / 2)"
    using c[THEN conjunct1, THEN mp, OF ne] unfolding am .
  have ex: "CalcularPromedioProfesor_execute iter_declaracion ejemplo_repo
     \<lparr>req_documento = ''123456'', req_periodo = None\<rparr> = Inr ejemplo_respuesta"
    by (rule ejemplo_execute)
  from c[THEN conjunct2, THEN conjunct1, THEN mp, OF ex] obtain fs where
    fs: "promedio_filtrar \<lparr>req_documento = ''123456'', req_periodo = None\<rparr>
          (find_by_profesor ejemplo_repo
             (req_documento \<lparr>req_documento = ''123456'', req_periodo = None\<rparr>)) = Inr fs"
    and pg: "pr_promedio_general ejemplo_respuesta = arithmetic_mean (map spec_eval_mean fs)"
    and pt: "pr_total_evaluaciones ejemplo_respuesta = length fs"
    by blast
  have "fs = [ejemplo_eval1, ejemplo_eval2]"
    using fs by (simp add: promedio_filtrar_def truthy_def ejemplo_find)
  then have 2: "pr_promedio_general ejemplo_respuesta = 4"
    and 3: "pr_total_evaluaciones ejemplo_respuesta = 2"
    using pg pt by (simp_all add: ejemplo_means arithmetic_mean_def)
  show ?thesis
    by (rule conjI[OF ne conjI[OF 1 conjI[OF ex conjI[OF 2 3]]]])
qed

text \<open>
  C2. Let every stored rating be a constructed \<open>Calificacion\<close>, and let \<open>iter\<close> be any order
  in which the members of a set of categories are visited. Then \<open>_calcular_por_categoria\<close>
  returns \<open>spec_por_categoria\<close>: one entry for every category other than COMENTARIOS that
  has a qualifying evaluation, where an evaluation qualifies when its mean over its
  answered ratings in the category is not 0; the entry holds the mean of those means and
  the number of qualifying evaluations, and the entries are sorted ascending by the full
  label. \<open>_calcular_por_actor\<close> returns \<open>spec_por_actor\<close>: the evaluations grouped by
  \<open>tipo_formulario\<close>, the mean of the members' overall means leaving out members whose
  mean is 0, the number of members that count, sorted ascending by label.
\<close>

theorem C2_per_category_and_per_actor:
  assumes "\<And>S. set (iter S) = S \<and> distinct (iter S)"
    and "\<forall>e \<in> set evs. calificaciones_validas e"
  shows "uc_calcular_por_categoria iter evs = Inr (spec_por_categoria evs) \<and>
         sorted (map pc_categoria (spec_por_categoria evs)) \<and>
         uc_calcular_por_actor evs = Inr (spec_por_actor evs) \<and>
         sorted (map pa_actor (spec_por_actor evs))"
proof (intro conjI)
  show "uc_calcular_por_categoria iter evs = Inr (spec_por_categoria evs)"
    using assms by (rule por_categoria_spec)
  show "uc_calcular_por_actor evs = Inr (spec_por_actor evs)"
    using assms(2) by (rule por_actor_spec)
  show "sorted (map pc_categoria (spec_por_categoria evs))"
    unfolding spec_por_categoria_def by (rule sorted_sort_key)
  show "sorted (map pa_actor (spec_por_actor evs))"
    unfolding spec_por_actor_def by (rule sorted_sort_key)
qed

theorem C2_per_category_and_per_actor_witness:
  "(\<forall>S. set (iter_declaracion S) = S \<and> distinct (iter_declaracion S)) \<and>
   calificaciones_validas ejemplo_eval1 \<and> calificaciones_validas ejemplo_eval2 \<and>
   uc_calcular_por_categoria iter_declaracion [ejemplo_eval1, ejemplo_eval2] =
     Inr [\<lparr>pc_categoria = ''ENSE'' @ [CHR 0xD1] @ ''ANZA-APRENDIZAJE'',
           pc_categoria_corta = ''Ense'' @ [CHR 0xF1] @ ''anza-Aprendizaje'',
           pc_promedio = 4, pc_total_evaluaciones = 2\<rparr>] \<and>
   uc_calcular_por_actor [ejemplo_eval1, ejemplo_eval2] =
     Inr [\<lparr>pa_actor = ''ESTUDIANTE V3'', pa_promedio = 4, pa_total_evaluaciones = 2\<rparr>]"
proof -
  have h1: "\<And>S. set (iter_declaracion S) = S \<and> distinct (iter_declaracion S)"
    by (rule iter_declaracion_ok)
  have h2: "\<forall>e \<in> set [ejemplo_eval1, ejemplo_eval2]. calificaciones_validas e"
    by (simp add: ejemplo_validas)
  note c = C2_per_category_and_per_actor
             [of iter_declaracion "[ejemplo_eval1, ejemplo_eval2]", OF h1 h2]
  have a: "\<forall>S. set (iter_declaracion S) = S \<and> distinct (iter_declaracion S)"
    by (intro allI) (rule h1)
  have 1: "uc_calcular_por_categoria iter_declaracion [ejemplo_eval1, ejemplo_eval2] =
     Inr [\<lparr>pc_categoria = ''ENSE'' @ [CHR 0xD1] @ ''ANZA-APRENDIZAJE'',
           pc_categoria_corta = ''Ense'' @ [CHR 0xF1] @ ''anza-Aprendizaje'',
           pc_promedio = 4, pc_total_evaluaciones = 2\<rparr>]"
    using c[THEN conjunct1] unfolding ejemplo_spec_por_categoria .
  have 2: "uc_calcular_por_actor [ejemplo_eval1, ejemplo_eval2] =
     Inr [\<lparr>pa_actor = ''ESTUDIANTE V3'', pa_promedio = 4, pa_total_evaluaciones = 2\<rparr>]"
    using c[THEN conjunct2, THEN conjunct2, THEN conjunct1] unfolding ejemplo_spec_por_actor .
  show ?thesis
    by (rule conjI[OF a conjI[OF ejemplo_validas(1) conjI[OF ejemplo_validas(2) conjI[OF 1 2]]]])
qed

text \<open>
  C10. When every stored rating is a constructed \<open>Calificacion\<close> (so at least 1.0), the
  overall mean of an evaluation and each of its category means is either 0 or at least 1,
  and it is positive exactly when the evaluation has an answered rating that counts
  (\<open>total_respuestas_validas\<close>, respectively \<open>obtener_respuestas_por_categoria\<close>). So the
  tests \<open>promedio > 0\<close> of the two aggregations leave out exactly the evaluations without
  such a rating: the labels reported, and the count reported for each, are those of the
  evaluations that hold rating data.
\<close>

theorem C10_means_are_zero_or_at_least_one:
  assumes "\<And>S. set (iter S) = S \<and> distinct (iter S)"
    and "\<forall>e \<in> set evs. calificaciones_validas e"
  shows "(\<forall>e \<in> set evs. \<exists>m. calcular_promedio_general e = Inr m \<and> (m = 0 \<or> 1 \<le> m) \<and>
            (0 < m \<longleftrightarrow> 0 < total_respuestas_validas e)) \<and>
         (\<forall>e \<in> set evs. \<forall>c. \<exists>m. calcular_promedio_por_categoria e c = Inr m \<and>
            (m = 0 \<or> 1 \<le> m) \<and> (0 < m \<longleftrightarrow> obtener_respuestas_por_categoria e c \<noteq> [])) \<and>
         (\<exists>rs. uc_calcular_por_actor evs = Inr rs \<and>
            pa_actor ` set rs =
              {tipo_formulario e |e. e \<in> set evs \<and> 0 < total_respuestas_validas e} \<and>
            (\<forall>r \<in> set rs. pa_total_evaluaciones r =
               length (filter (\<lambda>e. tipo_formulario e = pa_actor r \<and>
                                   0 < total_respuestas_validas e) evs))) \<and>
         (\<exists>rs. uc_calcular_por_categoria iter evs = Inr rs \<and>
            (\<forall>c. categoria_label c \<in> pc_categoria ` set rs \<longleftrightarrow>
                  c \<noteq> COMENTARIOS \<and>
                  (\<exists>e \<in> set evs. obtener_respuestas_por_categoria e c \<noteq> [])) \<and>
            (\<forall>r \<in> set rs. \<forall>c. pc_categoria r = categoria_label c \<longrightarrow>
               pc_total_evaluaciones r =
                 length (filter (\<lambda>e. obtener_respuestas_por_categoria e c \<noteq> []) evs)))"
proof (intro conjI)
  have tv: "spec_ratings e \<noteq> [] \<longleftrightarrow> 0 < total_respuestas_validas e" for e
    using length_spec_ratings[of e] by (cases "spec_ratings e") auto
  have tc: "spec_cat_ratings e c \<noteq> [] \<longleftrightarrow> obtener_respuestas_por_categoria e c \<noteq> []" for e c
    using length_spec_cat_ratings[of e c] by (metis length_0_conv)
  show "\<forall>e \<in> set evs. \<exists>m. calcular_promedio_general e = Inr m \<and> (m = 0 \<or> 1 \<le> m) \<and>
            (0 < m \<longleftrightarrow> 0 < total_respuestas_validas e)"
    using assms(2) spec_eval_mean_valid tv
    by (auto simp: calcular_promedio_general_eq)
  show "\<forall>e \<in> set evs. \<forall>c. \<exists>m. calcular_promedio_por_categoria e c = Inr m \<and>
            (m = 0 \<or> 1 \<le> m) \<and> (0 < m \<longleftrightarrow> obtener_respuestas_por_categoria e c \<noteq> [])"
    using assms(2) spec_cat_mean_valid tc
    by (auto simp: calcular_promedio_por_categoria_eq)
  have ae: "e \<in> set evs \<Longrightarrow>
            actor_entra e a \<longleftrightarrow> tipo_formulario e = a \<and> 0 < total_respuestas_validas e" for e a
    using assms(2) spec_eval_mean_valid[of e] tv[of e] by (auto simp: actor_entra_def)
  have fa: "filter (\<lambda>e. actor_entra e a) evs =
            filter (\<lambda>e. tipo_formulario e = a \<and> 0 < total_respuestas_validas e) evs" for a
    using ae by (auto intro: filter_cong)
  have pe: "e \<in> set evs \<Longrightarrow> 0 < spec_eval_mean e \<longleftrightarrow> 0 < total_respuestas_validas e" for e
    using assms(2) spec_eval_mean_valid[of e] tv[of e] by auto
  show "\<exists>rs. uc_calcular_por_actor evs = Inr rs \<and>
            pa_actor ` set rs =
              {tipo_formulario e |e. e \<in> set evs \<and> 0 < total_respuestas_validas e} \<and>
            (\<forall>r \<in> set rs. pa_total_evaluaciones r =
               length (filter (\<lambda>e. tipo_formulario e = pa_actor r \<and>
                                   0 < total_respuestas_validas e) evs))"
    unfolding uc_calcular_por_actor_char fa
    using pe by (auto simp: mk_actor_dto_def image_iff) blast+
  have ce: "e \<in> set evs \<Longrightarrow>
            cat_entra e c \<longleftrightarrow> c \<noteq> COMENTARIOS \<and> obtener_respuestas_por_categoria e c \<noteq> []" for e c
    using assms(2) cat_entra_valid[of e c] spec_cat_mean_valid[of e c] tc[of e c] by auto
  have fc: "filter (\<lambda>e. cat_entra e c) evs =
            (if c = COMENTARIOS then []
             else filter (\<lambda>e. obtener_respuestas_por_categoria e c \<noteq> []) evs)" for c
    using ce by (auto intro: filter_cong)
  show "\<exists>rs. uc_calcular_por_categoria iter evs = Inr rs \<and>
            (\<forall>c. categoria_label c \<in> pc_categoria ` set rs \<longleftrightarrow>
                  c \<noteq> COMENTARIOS \<and>
                  (\<exists>e \<in> set evs. obtener_respuestas_por_categoria e c \<noteq> [])) \<and>
            (\<forall>r \<in> set rs. \<forall>c. pc_categoria r = categoria_label c \<longrightarrow>
               pc_total_evaluaciones r =
                 length (filter (\<lambda>e. obtener_respuestas_por_categoria e c \<noteq> []) evs))"
    unfolding uc_calcular_por_categoria_char[OF assms(1)] fc
    using inj_categoria_label
    by (auto simp: mk_categoria_dto_def image_iff set_categorias_por_label inj_eq
        filter_empty_conv)
qed

theorem C10_means_are_zero_or_at_least_one_witness:
  "(\<forall>S. set (iter_declaracion S) = S \<and> distinct (iter_declaracion S)) \<and>
   calificaciones_validas ejemplo_eval1 \<and>
   calificaciones_validas ejemplo_eval_sin_respuestas \<and>
   calcular_promedio_general ejemplo_eval1 = Inr 3 \<and>
   total_respuestas_validas ejemplo_eval1 = 1 \<and>
   calcular_promedio_general ejemplo_eval_sin_respuestas = Inr 0 \<and>
   total_respuestas_validas ejemplo_eval_sin_respuestas = 0 \<and>
   uc_calcular_por_actor [ejemplo_eval1, ejemplo_eval_sin_respuestas] =
     Inr [\<lparr>pa_actor = ''ESTUDIANTE V3'', pa_promedio = 3, pa_total_evaluaciones = 1\<rparr>] \<and>
   (\<exists>rs. uc_calcular_por_actor [ejemplo_eval1, ejemplo_eval_sin_respuestas] = Inr rs \<and>
      pa_actor ` set rs =
        {tipo_formulario e |e. e \<in> set [ejemplo_eval1, ejemplo_eval_sin_respuestas] \<and>
                              0 < total_respuestas_validas e} \<and>
      (\<forall>r \<in> set rs. pa_total_evaluaciones r =
         length (filter (\<lambda>e. tipo_formulario e = pa_actor r \<and> 0 < total_respuestas_validas e)
                   [ejemplo_eval1, ejemplo_eval_sin_respuestas])))"
proof -
  have h1: "\<And>S. set (iter_declaracion S) = S \<and> distinct (iter_declaracion S)"
    by (rule iter_declaracion_ok)
  have v3: "calificaciones_validas ejemplo_eval_sin_respuestas"
    by (simp add: calificaciones_validas_def ejemplo_eval_sin_respuestas_def agregar_respuesta_def)
  have h2: "\<forall>e \<in> set [ejemplo_eval1, ejemplo_eval_sin_respuestas]. calificaciones_validas e"
    by (simp add: ejemplo_validas v3)
  have e1: "calcular_promedio_general ejemplo_eval1 = Inr 3"
    "total_respuestas_validas ejemplo_eval1 = 1"
    "calcular_promedio_general ejemplo_eval_sin_respuestas = Inr 0"
    "total_respuestas_validas ejemplo_eval_sin_respuestas = 0"
    by code_simp+
  have e2: "uc_calcular_por_actor [ejemplo_eval1, ejemplo_eval_sin_respuestas] =
     Inr [\<lparr>pa_actor = ''ESTUDIANTE V3'', pa_promedio = 3, pa_total_evaluaciones = 1\<rparr>]"
    by code_simp
  note c = C10_means_are_zero_or_at_least_one
         [of iter_declaracion "[ejemplo_eval1, ejemplo_eval_sin_respuestas]", OF h1 h2]
  have a: "\<forall>S. set (iter_declaracion S) = S \<and> distinct (iter_declaracion S)"
    by (intro allI) (rule h1)
  show ?thesis
    by (rule conjI[OF a conjI[OF ejemplo_validas(1) conjI[OF v3 conjI[OF e1(1) conjI[OF e1(2) conjI[OF e1(3)
          conjI[OF e1(4) conjI[OF e2 c[THEN conjunct2, THEN conjunct2, THEN conjunct1]]]]]]]]])
qed

section \<open>The recommendation engine\<close>























































section \<open>Periodo: construction and order\<close>

lemma Periodo_new_iff:
  "(\<exists>p. Periodo_new s = Inr p) \<longleftrightarrow> shape_YYYY_N s \<or> (\<exists>t. s = t @ [newline] \<and> shape_YYYY_N t)"
  by (simp add: Periodo_new_def PATTERN_match_iff)

lemma Periodo_trichotomy_shape:
  assumes "shape_YYYY_N (periodo_valor p)" "shape_YYYY_N (periodo_valor q)"
  shows "Periodo_lt p q = Inr True \<or> p = q \<or> Periodo_lt q p = Inr True"
proof -
  obtain s where p: "p = Periodo s" by (cases p)
  obtain s' where q: "q = Periodo s'" by (cases q)
  have m: "PATTERN_match (periodo_valor p)" "PATTERN_match (periodo_valor q)"
    using assms by (simp_all add: PATTERN_match_iff)
  have "periodo_key p < periodo_key q \<or> periodo_key p = periodo_key q \<or> periodo_key q < periodo_key p"
    by auto
  moreover have "periodo_key p = periodo_key q \<Longrightarrow> p = q"
    using periodo_key_inj_shape[of s s'] assms by (simp add: p q)
  ultimately show ?thesis
    using Periodo_lt_key[OF m] Periodo_lt_key[OF m(2) m(1)] by auto
qed

lemma Periodo_gt_ejemplo: "Periodo_gt (Periodo ''2025-1'') (Periodo ''2024-2'') = Inr True"
  by code_simp

text \<open>
  C7. \<open>Periodo("2025-1\n")\<close> is constructed: the \<open>$\<close> of the pattern also matches before a
  final newline. The value is not of the shape YYYY-N, it differs from \<open>Periodo("2025-1")\<close>,
  and neither of the two is less than the other, so the constructed periods are not
  totally ordered by \<open>__lt__\<close>. (On strings of the shape YYYY-N construction succeeds, the
  order is the one of (year, semester) and any two different periods are comparable:
  \<open>Periodo_new_iff\<close>, \<open>Periodo_lt_key\<close>, \<open>Periodo_trichotomy_shape\<close>, \<open>Periodo_gt_ejemplo\<close>.)
\<close>

theorem C7_periodo_accepts_trailing_newline:
  "Periodo_new (''2025-1'' @ [newline]) = Inr (Periodo (''2025-1'' @ [newline])) \<and>
   \<not> shape_YYYY_N (''2025-1'' @ [newline]) \<and>
   Periodo (''2025-1'' @ [newline]) \<noteq> Periodo ''2025-1'' \<and>
   Periodo_lt (Periodo ''2025-1'') (Periodo (''2025-1'' @ [newline])) = Inr False \<and>
   Periodo_lt (Periodo (''2025-1'' @ [newline])) (Periodo ''2025-1'') = Inr False"
  by code_simp

section \<open>Errors of the use cases\<close>


lemma promedio_formato:
  "find_by_profesor repo doc \<noteq> [] \<Longrightarrow> truthy p \<Longrightarrow> \<not> PATTERN_match (the p) \<Longrightarrow>
   CalcularPromedioProfesor_execute iter repo \<lparr>req_documento = doc, req_periodo = p\<rparr> =
     Inl (ValueError (formato_invalido (the p)))"
  by (simp add: CalcularPromedioProfesor_execute_def promedio_filtrar_def Periodo_new_def)



lemma at_index_0: "xs \<noteq> [] \<Longrightarrow> at_index xs 0 = Inr (hd xs)"
  by (cases xs) (simp_all add: at_index_def)

lemma filtrar_por_valor_empty:
  "evs \<noteq> [] \<Longrightarrow>
   filtrar_por_valor p evs = [] \<longleftrightarrow>
     truthy p \<and> (\<forall>e \<in> set evs. periodo_valor (periodo e) \<noteq> the p)"
  by (auto simp add: filtrar_por_valor_def filter_empty_conv)


lemma mejora_sin_periodo:
  "find_by_profesor repo doc \<noteq> [] \<Longrightarrow> truthy p \<Longrightarrow>
   \<forall>e \<in> set (find_by_profesor repo doc). periodo_valor (periodo e) \<noteq> the p \<Longrightarrow>
   ObtenerPropuestaMejora_execute repo \<lparr>mreq_documento = doc, mreq_periodo = p\<rparr> =
     Inl (ProfesorNotFoundError (no_se_encontraron doc))"
  by (simp add: ObtenerPropuestaMejora_execute_def at_index_0 filtrar_por_valor_empty)


lemma detalle_sin_periodo:
  "find_by_profesor repo doc \<noteq> [] \<Longrightarrow> truthy p \<Longrightarrow>
   \<forall>e \<in> set (find_by_profesor repo doc). periodo_valor (periodo e) \<noteq> the p \<Longrightarrow>
   ObtenerDetalleEvaluacion_execute repo \<lparr>dreq_documento = doc, dreq_periodo = p\<rparr> =
     Inl (ProfesorNotFoundError (detalle_no_encontrado doc p))"
  by (simp add: ObtenerDetalleEvaluacion_execute_def at_index_0 filtrar_por_valor_empty)







text \<open>
  C9, where the claim as worded fails. The empty string does not match the pattern; given
  as the period it is skipped by \<open>if request.periodo\<close> in all three use cases, and each of
  them returns a response over all evaluations of the teacher.
\<close>

theorem C9_empty_period_is_not_rejected:
  "find_by_profesor ejemplo_repo ''123456'' = [ejemplo_eval1, ejemplo_eval2] \<and>
   \<not> PATTERN_match '''' \<and>
   CalcularPromedioProfesor_execute iter_declaracion ejemplo_repo
     \<lparr>req_documento = ''123456'', req_periodo = Some ''''\<rparr> =
     Inr (ejemplo_respuesta\<lparr>pr_periodo := Some ''''\<rparr>) \<and>
   ObtenerPropuestaMejora_execute ejemplo_repo
     \<lparr>mreq_documento = ''123456'', mreq_periodo = Some ''''\<rparr> =
     Inr \<lparr>mresp_documento = ''123456'',
          mresp_nombre_completo = ''Juan P'' @ [CHR 0xE9] @ ''rez'',
          mresp_periodo = Some '''', mresp_categorias_a_mejorar = []\<rparr> \<and>
   ObtenerDetalleEvaluacion_execute ejemplo_repo
     \<lparr>dreq_documento = ''123456'', dreq_periodo = Some ''''\<rparr> =
     Inr ejemplo_detalle_respuesta"
  by code_simp

text \<open>
  C9, amended. Let the teacher have an evaluation, let the period value of each of the
  teacher's evaluations match the pattern (as for every constructed \<open>Periodo\<close>), and let the
  requested period be a non-empty string the pattern rejects. Then the Average Calculator
  raises the format \<open>ValueError\<close>, while the Recommendation and the Detail use case raise
  \<open>ProfesorNotFoundError\<close>.
\<close>

theorem C9_invalid_period_errors:
  assumes "find_by_profesor repo doc \<noteq> []"
    and "\<forall>e \<in> set (find_by_profesor repo doc). PATTERN_match (periodo_valor (periodo e))"
    and "p \<noteq> []"
    and "\<not> PATTERN_match p"
  shows "CalcularPromedioProfesor_execute iter repo
           \<lparr>req_documento = doc, req_periodo = Some p\<rparr> =
           Inl (ValueError (formato_invalido p)) \<and>
         ObtenerPropuestaMejora_execute repo \<lparr>mreq_documento = doc, mreq_periodo = Some p\<rparr> =
           Inl (ProfesorNotFoundError (no_se_encontraron doc)) \<and>
         ObtenerDetalleEvaluacion_execute repo \<lparr>dreq_documento = doc, dreq_periodo = Some p\<rparr> =
           Inl (ProfesorNotFoundError (detalle_no_encontrado doc (Some p)))"
proof -
  have t: "truthy (Some p)" using assms(3) by (simp add: truthy_def)
  have n: "\<not> PATTERN_match (the (Some p))" using assms(4) by simp
  have d: "\<forall>e \<in> set (find_by_profesor repo doc). periodo_valor (periodo e) \<noteq> the (Some p)"
    using assms(2,4) by auto
  show ?thesis
    using promedio_formato[OF assms(1) t n, of iter]
      mejora_sin_periodo[OF assms(1) t d] detalle_sin_periodo[OF assms(1) t d]
    by simp
qed

theorem C9_invalid_period_errors_witness:
  "find_by_profesor ejemplo_repo ''123456'' \<noteq> [] \<and>
   PATTERN_match (periodo_valor (periodo ejemplo_eval1)) \<and>
   PATTERN_match (periodo_valor (periodo ejemplo_eval2)) \<and>
   ''2025-3'' \<noteq> [] \<and> \<not> PATTERN_match ''2025-3'' \<and>
   CalcularPromedioProfesor_execute iter_declaracion ejemplo_repo
     \<lparr>req_documento = ''123456'', req_periodo = Some ''2025-3''\<rparr> =
     Inl (ValueError (formato_invalido ''2025-3'')) \<and>
   ObtenerPropuestaMejora_execute ejemplo_repo
     \<lparr>mreq_documento = ''123456'', mreq_periodo = Some ''2025-3''\<rparr> =
     Inl (ProfesorNotFoundError (no_se_encontraron ''123456'')) \<and>
   ObtenerDetalleEvaluacion_execute ejemplo_repo
     \<lparr>dreq_documento = ''123456'', dreq_periodo = Some ''2025-3''\<rparr> =
     Inl (ProfesorNotFoundError (detalle_no_encontrado ''123456'' (Some ''2025-3'')))"
proof -
  have ne: "find_by_profesor ejemplo_repo ''123456'' \<noteq> []" by (simp add: ejemplo_find)
  have m1: "PATTERN_match (periodo_valor (periodo ejemplo_eval1))" by code_simp
  have m2: "PATTERN_match (periodo_valor (periodo ejemplo_eval2))" by code_simp
  have all: "\<forall>e \<in> set (find_by_profesor ejemplo_repo ''123456'').
               PATTERN_match (periodo_valor (periodo e))"
    unfolding ejemplo_find using m1 m2 by simp
  have p: "''2025-3'' \<noteq> []" by simp
  have n: "\<not> PATTERN_match ''2025-3''" by code_simp
  note c = C9_invalid_period_errors[OF ne all p n, of iter_declaracion]
  show ?thesis
    by (rule conjI[OF ne conjI[OF m1 conjI[OF m2 conjI[OF p conjI[OF n c]]]]])
qed

section \<open>The repository and the order of its input\<close>

lemma index_vals:
  "dd_vals (\<lambda>x. x) (foldl (\<lambda>index e. dd_append (\<lambda>x. x) (k e) e index) acc evs) c =
     dd_vals (\<lambda>x. x) acc c @ filter (\<lambda>e. k e = c) evs"
  by (induction evs arbitrary: acc) (simp_all add: dd_vals_dd_append)



lemma find_by_profesor_init:
  "find_by_profesor (EvaluacionRepository_init evs) d = evaluaciones_de d evs"
  using index_vals[of profesor_documento "[]" evs d]
  by (simp add: find_by_profesor_def EvaluacionRepository_init_def build_profesor_index_def
      dd_vals_def evaluaciones_de_def)



lemma find_by_profesor_and_periodo_init:
  "find_by_profesor_and_periodo (EvaluacionRepository_init evs) d p =
     filter (\<lambda>e. periodo e = p) (evaluaciones_de d evs)"
  using find_by_profesor_init[of evs d]
  by (simp add: find_by_profesor_and_periodo_def find_by_profesor_def)




















end
